theory Spec2Isabelle
  imports Complex_Main "HOL-Library.AList" "HOL-Library.Sublist"
begin

section \<open>Python values and dictionaries\<close>

text \<open>
  The extractors and the workflow pass loosely typed Python values around: strings,
  numbers, \<^verbatim>\<open>None\<close>, lists and dictionaries. A float is carried as the rational
  it denotes. A dictionary is an association list in insertion order; a well-formed
  dictionary has distinct keys.
\<close>

datatype pyval =
    PNone
  | PBool bool
  | PInt int
  | PFloat rat
  | PStr string
  | PList "pyval list"
  | PDict "(string \<times> pyval) list"

type_synonym pydict = "(string \<times> pyval) list"

text \<open>Truth value of a Python object in a condition (\<^verbatim>\<open>if x:\<close>).\<close>

fun truthy :: "pyval \<Rightarrow> bool" where
  "truthy PNone = False"
| "truthy (PBool b) = b"
| "truthy (PInt i) = (i \<noteq> 0)"
| "truthy (PFloat r) = (r \<noteq> 0)"
| "truthy (PStr s) = (s \<noteq> [])"
| "truthy (PList xs) = (xs \<noteq> [])"
| "truthy (PDict d) = (d \<noteq> [])"

text \<open>\<^verbatim>\<open>d.get(k)\<close>: the value stored under \<open>k\<close>, \<^verbatim>\<open>None\<close> when the key is absent.\<close>

definition dict_get :: "pydict \<Rightarrow> string \<Rightarrow> pyval" where
  "dict_get d k = (case map_of d k of None \<Rightarrow> PNone | Some v \<Rightarrow> v)"

text \<open>\<^verbatim>\<open>k in d\<close>.\<close>

definition dict_contains :: "string \<Rightarrow> (string \<times> 'v) list \<Rightarrow> bool" where
  "dict_contains k d = (k \<in> set (map fst d))"

text \<open>\<^verbatim>\<open>d[k] = v\<close>: replaces the value in place, or appends a new key at the end.\<close>

definition dict_set :: "(string \<times> 'v) list \<Rightarrow> string \<Rightarrow> 'v \<Rightarrow> (string \<times> 'v) list" where
  "dict_set d k v = AList.update k v d"

text \<open>\<^verbatim>\<open>d.update(other)\<close>: every item of \<open>other\<close> is stored into \<open>d\<close>, in order.\<close>

definition dict_update ::
  "(string \<times> 'v) list \<Rightarrow> (string \<times> 'v) list \<Rightarrow> (string \<times> 'v) list" where
  "dict_update d other = fold (\<lambda>(k, v) acc. dict_set acc k v) other d"

text \<open>\<^verbatim>\<open>s.startswith(p)\<close>.\<close>

definition startswith :: "string \<Rightarrow> string \<Rightarrow> bool" where
  "startswith s p = prefix p s"

section \<open>Workflow: input classification and branch predicates\<close>

text \<open>
  From \<^verbatim>\<open>src/workflows/unified_workflow.py\<close>. The raw input of a run is a Python
  value: a string, a dictionary, or anything else.
\<close>

record StepInput =
  input :: pyval
  previous_step_content :: pyval

record StepOutput =
  content :: pyval

text \<open>
  \<^verbatim>\<open>classify_input_step\<close>. The whole \<^verbatim>\<open>try\<close> block (building the prompt from the
  input and running the classifier agent) is the parameter \<open>classifier\<close>: it returns
  the agent's content, or \<open>Inl e\<close> when anything in the block raises an exception whose
  text is \<open>e\<close>. \<open>py_str\<close> is Python's \<^verbatim>\<open>str\<close>. The default classification is
  handed to \<^verbatim>\<open>json.dumps\<close> in the source; the model keeps the dictionary that is
  serialised.
\<close>

definition classify_input_step ::
  "(pyval \<Rightarrow> string) \<Rightarrow> (pyval \<Rightarrow> string + pyval) \<Rightarrow> StepInput \<Rightarrow> StepOutput" where
  "classify_input_step py_str classifier step_input =
     (case classifier (input step_input) of
        Inr classification \<Rightarrow> \<lparr>content = classification\<rparr>
      | Inl e \<Rightarrow>
          \<lparr>content = PDict
             [(''type'', PStr ''unknown''),
              (''confidence'', PStr ''low''),
              (''reasoning'', PStr (''Classification failed: '' @ e)),
              (''normalized_input'', PStr (py_str (input step_input)))]\<rparr>)"

text \<open>\<^verbatim>\<open>_check_is_url\<close> and the condition evaluator \<^verbatim>\<open>is_url_input\<close>.\<close>

definition check_is_url :: "pyval \<Rightarrow> bool" where
  "check_is_url input_data =
     (case input_data of
        PDict d \<Rightarrow>
          (case dict_get d ''url'' of
             PStr url \<Rightarrow> startswith url ''http://'' \<or> startswith url ''https://''
           | _ \<Rightarrow> False)
      | PStr s \<Rightarrow> startswith s ''http://'' \<or> startswith s ''https://''
      | _ \<Rightarrow> False)"

definition is_url_input :: "StepInput \<Rightarrow> bool" where
  "is_url_input step_input = check_is_url (input step_input)"

text \<open>\<^verbatim>\<open>_check_has_url_or_html\<close> and the condition evaluator \<^verbatim>\<open>has_url_or_html\<close>.\<close>

definition check_has_url_or_html :: "pyval \<Rightarrow> bool" where
  "check_has_url_or_html input_data =
     (case input_data of
        PDict d \<Rightarrow> dict_contains ''url'' d \<or> dict_contains ''html'' d
      | PStr s \<Rightarrow> True
      | _ \<Rightarrow> False)"

definition has_url_or_html :: "StepInput \<Rightarrow> bool" where
  "has_url_or_html step_input = check_has_url_or_html (input step_input)"

text \<open>\<^verbatim>\<open>_check_has_screenshot\<close>, \<^verbatim>\<open>has_screenshot\<close> and \<^verbatim>\<open>needs_uiux_analysis\<close>.\<close>

definition check_has_screenshot :: "pyval \<Rightarrow> bool" where
  "check_has_screenshot input_data =
     (case input_data of
        PDict d \<Rightarrow> dict_contains ''screenshot'' d \<or> dict_contains ''screenshots'' d
      | _ \<Rightarrow> False)"

definition has_screenshot :: "StepInput \<Rightarrow> bool" where
  "has_screenshot step_input = check_has_screenshot (input step_input)"

definition needs_uiux_analysis :: "StepInput \<Rightarrow> bool" where
  "needs_uiux_analysis step_input =
     (check_is_url (input step_input) \<or> check_has_screenshot (input step_input))"

section \<open>Performance extraction\<close>

text \<open>
  From \<^verbatim>\<open>src/extractors/performance_extractor.py\<close>. An instance of the dataclass
  \<^verbatim>\<open>TechnicalPerformanceFeatures\<close> is the dictionary of its attributes;
  \<open>TechnicalPerformanceFeatures u\<close> is the instance built with \<^verbatim>\<open>url=u\<close>, every
  other attribute at its declared default.
\<close>

definition TechnicalPerformanceFeatures :: "string \<Rightarrow> pydict" where
  "TechnicalPerformanceFeatures u =
     [(''url'', PStr u), (''analyzed_at'', PStr ''''), (''lcp_score'', PNone),
      (''lcp_value'', PNone), (''lcp_category'', PNone), (''fid_score'', PNone),
      (''fid_value'', PNone), (''fid_category'', PNone), (''cls_score'', PNone),
      (''cls_value'', PNone), (''cls_category'', PNone), (''fcp_score'', PNone),
      (''fcp_value'', PNone), (''fcp_category'', PNone), (''tti_score'', PNone),
      (''tti_value'', PNone), (''tti_category'', PNone),
      (''speed_index_score'', PNone), (''speed_index_value'', PNone),
      (''speed_index_category'', PNone), (''tbt_score'', PNone),
      (''tbt_value'', PNone), (''tbt_category'', PNone),
      (''performance_score'', PNone), (''accessibility_score'', PNone),
      (''best_practices_score'', PNone), (''seo_score'', PNone),
      (''total_page_size'', PNone), (''total_requests'', PNone),
      (''html_size'', PNone), (''css_size'', PNone), (''js_size'', PNone),
      (''image_size'', PNone), (''font_size'', PNone), (''other_size'', PNone),
      (''html_requests'', PInt 0), (''css_requests'', PInt 0),
      (''js_requests'', PInt 0), (''image_requests'', PInt 0),
      (''font_requests'', PInt 0), (''other_requests'', PInt 0),
      (''uses_gzip_compression'', PBool False),
      (''uses_brotli_compression'', PBool False), (''has_cache_control'', PBool False),
      (''cache_control_value'', PNone), (''has_etag'', PBool False),
      (''has_expires'', PBool False), (''expires_value'', PNone),
      (''has_hsts'', PBool False), (''hsts_value'', PNone), (''has_csp'', PBool False),
      (''csp_value'', PNone), (''has_x_frame_options'', PBool False),
      (''x_frame_options_value'', PNone),
      (''has_x_content_type_options'', PBool False),
      (''has_referrer_policy'', PBool False), (''referrer_policy_value'', PNone),
      (''server_type'', PNone), (''response_time'', PNone),
      (''http_status_code'', PNone), (''redirects_count'', PInt 0),
      (''uses_http2'', PBool False), (''uses_http3'', PBool False),
      (''render_blocking_css_count'', PInt 0), (''render_blocking_js_count'', PInt 0),
      (''render_blocking_resources'', PList []),
      (''unoptimized_images_count'', PInt 0), (''images_without_dimensions'', PInt 0),
      (''next_gen_images_opportunity'', PBool False), (''unused_js_bytes'', PNone),
      (''total_js_execution_time'', PNone), (''main_thread_work_time'', PNone),
      (''unused_css_bytes'', PNone), (''font_display_set'', PBool False),
      (''preconnect_to_required_origins'', PList []),
      (''third_party_requests'', PInt 0), (''third_party_size'', PNone),
      (''third_party_blocking_time'', PNone), (''opportunities'', PList []),
      (''diagnostics'', PList []), (''analysis_source'', PStr ''unknown''),
      (''api_error'', PNone), (''fallback_used'', PBool False)]"

text \<open>
  The three \<^verbatim>\<open>_to_dict\<close> methods copy a fixed list of attributes into the
  dictionary a stage returns.
\<close>

definition to_dict :: "string list \<Rightarrow> pydict \<Rightarrow> pydict" where
  "to_dict keys features = map (\<lambda>k. (k, dict_get features k)) keys"

definition pagespeed_keys :: "string list" where
  "pagespeed_keys =
     [''url'', ''analyzed_at'', ''performance_score'', ''accessibility_score'',
      ''best_practices_score'', ''seo_score'', ''lcp_score'', ''lcp_value'',
      ''fid_score'', ''fid_value'', ''cls_score'', ''cls_value'', ''fcp_score'',
      ''fcp_value'', ''tti_score'', ''tti_value'', ''speed_index_score'',
      ''speed_index_value'', ''tbt_score'', ''tbt_value'',
      ''render_blocking_css_count'', ''render_blocking_js_count'',
      ''render_blocking_resources'', ''unused_js_bytes'', ''unused_css_bytes'',
      ''total_js_execution_time'', ''third_party_requests'', ''third_party_size'',
      ''third_party_blocking_time'', ''uses_http2'', ''font_display_set'',
      ''opportunities'', ''diagnostics'', ''analysis_source'', ''api_error'',
      ''fallback_used'']"

definition header_keys :: "string list" where
  "header_keys =
     [''url'', ''analyzed_at'', ''response_time'', ''http_status_code'',
      ''redirects_count'', ''uses_gzip_compression'', ''uses_brotli_compression'',
      ''has_cache_control'', ''cache_control_value'', ''has_etag'', ''has_expires'',
      ''expires_value'', ''has_hsts'', ''hsts_value'', ''has_csp'', ''csp_value'',
      ''has_x_frame_options'', ''x_frame_options_value'',
      ''has_x_content_type_options'', ''has_referrer_policy'',
      ''referrer_policy_value'', ''server_type'', ''uses_http2'', ''uses_http3'',
      ''analysis_source'', ''api_error'']"

definition local_keys :: "string list" where
  "local_keys =
     [''url'', ''analyzed_at'', ''response_time'', ''fcp_value'', ''total_page_size'',
      ''total_requests'', ''html_size'', ''css_size'', ''js_size'', ''image_size'',
      ''font_size'', ''other_size'', ''html_requests'', ''css_requests'',
      ''js_requests'', ''image_requests'', ''font_requests'', ''other_requests'',
      ''analysis_source'', ''api_error'']"

text \<open>
  What a stage measures comes from outside the program (the audit service's JSON, the
  response headers, the browser). The model takes the attribute assignments that the
  measuring code of a stage performs as data, \<open>ms\<close>, and applies them in order. The
  measuring code of each stage writes only attributes that the stage reports and never
  the bookkeeping attributes \<open>metadata_fields\<close>, which the \<^verbatim>\<open>extract\<close> methods
  set themselves.
\<close>

definition metadata_fields :: "string list" where
  "metadata_fields =
     [''url'', ''analyzed_at'', ''analysis_source'', ''api_error'', ''fallback_used'']"

definition record_measurements :: "string list \<Rightarrow> pydict \<Rightarrow> pydict \<Rightarrow> pydict" where
  "record_measurements keys ms features =
     fold (\<lambda>(k, v) f.
             if k \<in> set keys \<and> k \<notin> set metadata_fields then dict_set f k v else f)
       ms features"

text \<open>
  \<^verbatim>\<open>PerformanceAnalyzer.extract\<close> (stage 1, the remote audit). The request either
  succeeds, after which the four \<^verbatim>\<open>_extract_*\<close> helpers (which catch their own
  exceptions) record \<open>ms\<close> and the clock reads \<open>now\<close>; or it raises a
  \<^verbatim>\<open>requests.exceptions.RequestException\<close>; or it raises any other exception.
  The argument of the two failures is \<^verbatim>\<open>str(e)\<close>.
\<close>

datatype api_outcome =
    ApiOk pydict string
  | RequestException string
  | OtherException string

definition PerformanceAnalyzer_extract :: "string \<Rightarrow> api_outcome \<Rightarrow> pydict" where
  "PerformanceAnalyzer_extract u outcome =
     (let features = TechnicalPerformanceFeatures u in
      to_dict pagespeed_keys
        (case outcome of
           ApiOk ms now \<Rightarrow>
             dict_set
               (dict_set (record_measurements pagespeed_keys ms features)
                  ''analysis_source'' (PStr ''pagespeed''))
               ''analyzed_at'' (PStr now)
         | RequestException e \<Rightarrow>
             dict_set
               (dict_set features ''api_error'' (PStr (''PageSpeed API request failed: '' @ e)))
               ''fallback_used'' (PBool True)
         | OtherException e \<Rightarrow>
             dict_set features ''api_error''
               (PStr (''Unexpected error during PageSpeed analysis: '' @ e))))"

text \<open>
  \<^verbatim>\<open>HeaderAnalyzer.extract\<close> (stage 2, the header probe): the \<^verbatim>\<open>HEAD\<close> request
  answers and the header fields \<open>ms\<close> are recorded, or it raises.
\<close>

datatype head_outcome =
    HeadOk pydict string
  | HeadFailed string

definition HeaderAnalyzer_extract :: "string \<Rightarrow> head_outcome \<Rightarrow> pydict" where
  "HeaderAnalyzer_extract u outcome =
     (let features = TechnicalPerformanceFeatures u in
      to_dict header_keys
        (case outcome of
           HeadOk ms now \<Rightarrow>
             dict_set
               (dict_set (record_measurements header_keys ms features)
                  ''analysis_source'' (PStr ''headers''))
               ''analyzed_at'' (PStr now)
         | HeadFailed e \<Rightarrow>
             dict_set features ''api_error'' (PStr (''Error analyzing headers: '' @ e))))"

text \<open>
  \<^verbatim>\<open>LocalPerformanceAnalyzer.extract\<close> (stage 3, the local measurement). The browser
  run completes; or the browser library cannot be imported; or an exception is raised
  at some point of the run, possibly after \<^verbatim>\<open>_analyze_resources\<close> and the basic
  metrics have been recorded (\<open>ms\<close> holds what was recorded before it).
\<close>

datatype local_outcome =
    LocalOk pydict string
  | PlaywrightMissing
  | LocalFailed pydict string

definition LocalPerformanceAnalyzer_extract :: "string \<Rightarrow> local_outcome \<Rightarrow> pydict" where
  "LocalPerformanceAnalyzer_extract u outcome =
     (let features = TechnicalPerformanceFeatures u in
      to_dict local_keys
        (case outcome of
           LocalOk ms now \<Rightarrow>
             dict_set
               (dict_set (record_measurements local_keys ms features)
                  ''analysis_source'' (PStr ''local''))
               ''analyzed_at'' (PStr now)
         | PlaywrightMissing \<Rightarrow>
             dict_set features ''api_error''
               (PStr (''Playwright not installed. Run: pip install playwright ''
                      @ ''&& playwright install chromium''))
         | LocalFailed ms e \<Rightarrow>
             dict_set (record_measurements local_keys ms features) ''api_error''
               (PStr (''Error during local performance analysis: '' @ e))))"

text \<open>
  \<^verbatim>\<open>analyze_performance\<close>. \<open>fallback_invoked\<close> is the guard of step 3: stage 3 runs
  exactly when stage 1 reported a (truthy) \<^verbatim>\<open>api_error\<close> and the fallback is
  enabled. \<open>fill_missing\<close> is the loop of step 3. \<open>analyze_performance_with\<close> is the
  body of the function with the return values of the three \<^verbatim>\<open>extract\<close> calls as
  arguments; \<open>analyze_performance\<close> obtains them from the three analyzers.
\<close>

definition fallback_invoked :: "pydict \<Rightarrow> bool \<Rightarrow> bool" where
  "fallback_invoked pagespeed_data use_fallback =
     (truthy (dict_get pagespeed_data ''api_error'') \<and> use_fallback)"

definition fill_missing :: "pydict \<Rightarrow> pydict \<Rightarrow> pydict" where
  "fill_missing combined_features local_data =
     fold (\<lambda>(key, value) c. if dict_get c key = PNone then dict_set c key value else c)
       local_data combined_features"

definition analyze_performance_with :: "pydict \<Rightarrow> pydict \<Rightarrow> pydict \<Rightarrow> bool \<Rightarrow> pydict" where
  "analyze_performance_with pagespeed_data headers_data local_data use_fallback =
     (let combined_features = dict_update (dict_update [] pagespeed_data) headers_data in
      if fallback_invoked pagespeed_data use_fallback
      then fill_missing combined_features local_data
      else combined_features)"

record perf_world =
  api :: api_outcome
  head :: head_outcome
  browser :: local_outcome

definition analyze_performance :: "perf_world \<Rightarrow> string \<Rightarrow> bool \<Rightarrow> pydict" where
  "analyze_performance w u use_fallback =
     analyze_performance_with
       (PerformanceAnalyzer_extract u (api w))
       (HeaderAnalyzer_extract u (head w))
       (LocalPerformanceAnalyzer_extract u (browser w))
       use_fallback"

section \<open>UI/UX extraction\<close>

text \<open>
  From \<^verbatim>\<open>src/extractors/uiux_extractor.py\<close>. Everything the extractor obtains from
  outside the program is a field of \<open>uiux_world\<close>: the file system
  (\<open>path_exists\<close>; \<open>read_file\<close>, which returns the bytes of a file or the text of the
  exception that opening or reading it raises), \<^verbatim>\<open>base64.b64encode\<close>, and the
  headless browser (\<open>playwright_installed\<close>; \<open>browser_ok\<close>, whether launching and
  closing the browser succeed; \<open>capture\<close>, the PNG bytes of one viewport or the
  exception raised while capturing it; \<open>probe\<close>, the results of the five DOM checks,
  \<open>None\<close> when the audit's page load or a check raises).
\<close>

record AccessibilityIssue =
  type :: string
  severity :: string
  count :: nat
  description :: string

record page_probe =
  dom_images_without_alt :: nat
  dom_links_without_text :: nat
  dom_inputs_without_labels :: nat
  dom_has_lang :: bool
  dom_heading_issues :: "string list"

record audit_summary =
  critical :: int
  serious :: int
  moderate :: int
  total :: int

record audit_results =
  score :: int
  issues :: "AccessibilityIssue list"
  summary :: audit_summary

record uiux_world =
  path_exists :: "string \<Rightarrow> bool"
  read_file :: "string \<Rightarrow> string + string"
  b64encode :: "string \<Rightarrow> string"
  playwright_installed :: bool
  browser_ok :: bool
  capture :: "string \<Rightarrow> string \<Rightarrow> string + string"
  probe :: "string \<Rightarrow> page_probe option"

text \<open>The decimal text of a number, as an f-string prints it.\<close>

fun str_nat :: "nat \<Rightarrow> string" where
  "str_nat n =
     (if n < 10 then [char_of (48 + n)]
      else str_nat (n div 10) @ [char_of (48 + n mod 10)])"

text \<open>
  The scoring at the end of \<^verbatim>\<open>_run_accessibility_audit\<close>: the issues of each
  severity are counted (one per entry of the list, whatever its \<open>count\<close> field), and
  the score starts at 100, loses 15, 10 and 5 points per critical, serious and moderate
  issue, and is floored at 0.
\<close>

definition count_severity :: "string \<Rightarrow> AccessibilityIssue list \<Rightarrow> int" where
  "count_severity sev accessibility_issues =
     int (length (filter (\<lambda>i. severity i = sev) accessibility_issues))"

definition accessibility_score :: "AccessibilityIssue list \<Rightarrow> int" where
  "accessibility_score accessibility_issues =
     (let critical_issues = count_severity ''critical'' accessibility_issues;
          serious_issues = count_severity ''serious'' accessibility_issues;
          moderate_issues = count_severity ''moderate'' accessibility_issues;
          score = 100;
          score = score - critical_issues * 15;
          score = score - serious_issues * 10;
          score = score - moderate_issues * 5
      in max 0 score)"

text \<open>The issue list that the five checks of \<^verbatim>\<open>_run_accessibility_audit\<close> build.\<close>

definition audit_issues :: "page_probe \<Rightarrow> AccessibilityIssue list" where
  "audit_issues p =
     (if dom_images_without_alt p > 0
      then [\<lparr>type = ''missing_alt_text'', severity = ''serious'',
             count = dom_images_without_alt p,
             description = str_nat (dom_images_without_alt p) @ '' images missing alt text''\<rparr>]
      else [])
     @ (if dom_links_without_text p > 0
        then [\<lparr>type = ''empty_links'', severity = ''serious'',
               count = dom_links_without_text p,
               description =
                 str_nat (dom_links_without_text p) @ '' links without accessible names''\<rparr>]
        else [])
     @ (if dom_inputs_without_labels p > 0
        then [\<lparr>type = ''unlabeled_inputs'', severity = ''critical'',
               count = dom_inputs_without_labels p,
               description =
                 str_nat (dom_inputs_without_labels p) @ '' form inputs without labels''\<rparr>]
        else [])
     @ (if \<not> dom_has_lang p
        then [\<lparr>type = ''missing_lang'', severity = ''serious'', count = 1,
               description = ''HTML element missing lang attribute''\<rparr>]
        else [])
     @ map (\<lambda>issue. \<lparr>type = ''heading_hierarchy'', severity = ''moderate'', count = 1,
                       description = issue\<rparr>)
         (dom_heading_issues p)"

definition run_accessibility_audit :: "uiux_world \<Rightarrow> string \<Rightarrow> audit_results option" where
  "run_accessibility_audit w u =
     (if \<not> playwright_installed w then None
      else if \<not> browser_ok w then None
      else case probe w u of
             None \<Rightarrow> None
           | Some p \<Rightarrow>
               (let accessibility_issues = audit_issues p in
                Some \<lparr>score = accessibility_score accessibility_issues,
                      issues = accessibility_issues,
                      summary =
                        \<lparr>critical = count_severity ''critical'' accessibility_issues,
                         serious = count_severity ''serious'' accessibility_issues,
                         moderate = count_severity ''moderate'' accessibility_issues,
                         total = int (length accessibility_issues)\<rparr>\<rparr>))"

text \<open>
  \<^verbatim>\<open>_capture_screenshots\<close>: one capture per viewport, in the fixed order desktop,
  tablet, mobile; a viewport whose capture raises is left out.
\<close>

definition viewports :: "string list" where
  "viewports = [''desktop'', ''tablet'', ''mobile'']"

definition capture_screenshots :: "uiux_world \<Rightarrow> string \<Rightarrow> (string \<times> string) list" where
  "capture_screenshots w u =
     (if \<not> playwright_installed w then []
      else if \<not> browser_ok w then []
      else fold (\<lambda>viewport_name screenshots.
                   case capture w u viewport_name of
                     Inr screenshot_bytes \<Rightarrow>
                       dict_set screenshots viewport_name (b64encode w screenshot_bytes)
                   | Inl e \<Rightarrow> screenshots)
             viewports [])"

text \<open>
  \<^verbatim>\<open>_load_screenshot\<close> re-raises what goes wrong (\<open>Inl\<close>); \<^verbatim>\<open>_load_screenshots\<close>
  catches it per viewport and continues with the next one.
\<close>

definition load_screenshot :: "uiux_world \<Rightarrow> string \<Rightarrow> string + string" where
  "load_screenshot w screenshot_path =
     (if \<not> path_exists w screenshot_path
      then Inl (''Screenshot not found: '' @ screenshot_path)
      else case read_file w screenshot_path of
             Inl e \<Rightarrow> Inl e
           | Inr image_bytes \<Rightarrow> Inr (b64encode w image_bytes))"

definition load_screenshots ::
  "uiux_world \<Rightarrow> (string \<times> string) list \<Rightarrow> (string \<times> string) list" where
  "load_screenshots w screenshots_dict =
     fold (\<lambda>(viewport_name, screenshot_path) loaded_screenshots.
             case load_screenshot w screenshot_path of
               Inr screenshot_base64 \<Rightarrow>
                 dict_set loaded_screenshots viewport_name screenshot_base64
             | Inl e \<Rightarrow> loaded_screenshots)
       screenshots_dict []"

text \<open>
  The extractor object and its constructor, which picks the mode (a URL wins over a
  screenshot map, which wins over a single screenshot; an empty string or map counts as
  absent) and raises \<^verbatim>\<open>ValueError\<close> when nothing is given.
\<close>

record UIUXExtractor =
  ux_url :: "string option"
  ux_screenshot :: "string option"
  ux_screenshots :: "(string \<times> string) list option"
  ux_mode :: string

definition given :: "'a list option \<Rightarrow> bool" where
  "given x = (case x of None \<Rightarrow> False | Some v \<Rightarrow> v \<noteq> [])"

definition UIUXExtractor_init ::
  "string option \<Rightarrow> string option \<Rightarrow> (string \<times> string) list option \<Rightarrow> string + UIUXExtractor"
  where
  "UIUXExtractor_init u shot shots =
     (if given u
      then Inr \<lparr>ux_url = u, ux_screenshot = shot, ux_screenshots = shots, ux_mode = ''url''\<rparr>
      else if given shots
      then Inr \<lparr>ux_url = u, ux_screenshot = shot, ux_screenshots = shots,
                ux_mode = ''screenshots''\<rparr>
      else if given shot
      then Inr \<lparr>ux_url = u, ux_screenshot = shot, ux_screenshots = shots,
                ux_mode = ''screenshot''\<rparr>
      else Inl ''Must provide url, screenshot, or screenshots'')"

record uiux_features =
  mode :: string
  screenshots :: "(string \<times> string) list"
  accessibility :: "audit_results option"
  metadata :: pydict

text \<open>
  \<^verbatim>\<open>UIUXExtractor.extract\<close>. For an extractor built by the constructor only the
  single-screenshot mode can fail: there the exception of \<^verbatim>\<open>_load_screenshot\<close>
  propagates to the caller. (The \<open>None\<close> cases cannot arise from the constructor; they
  follow what the Python does with a \<^verbatim>\<open>None\<close> attribute: the browser calls fail
  inside their handlers, iterating or opening \<^verbatim>\<open>None\<close> raises.)
\<close>

definition UIUXExtractor_extract :: "uiux_world \<Rightarrow> UIUXExtractor \<Rightarrow> string + uiux_features" where
  "UIUXExtractor_extract w self =
     (if ux_mode self = ''url'' then
        (case ux_url self of
           None \<Rightarrow>
             Inr \<lparr>mode = ux_mode self, screenshots = [], accessibility = None,
                   metadata = [(''source'', PNone), (''viewports_captured'', PList [])]\<rparr>
         | Some u \<Rightarrow>
             (let shots = capture_screenshots w u in
              Inr \<lparr>mode = ux_mode self, screenshots = shots,
                    accessibility = run_accessibility_audit w u,
                    metadata = [(''source'', PStr u),
                                (''viewports_captured'', PList (map (PStr \<circ> fst) shots))]\<rparr>))
      else if ux_mode self = ''screenshots'' then
        (case ux_screenshots self of
           None \<Rightarrow> Inl ''NoneType object has no attribute items''
         | Some d \<Rightarrow>
             Inr \<lparr>mode = ux_mode self, screenshots = load_screenshots w d,
                   accessibility = None,
                   metadata = [(''source'', PStr ''provided_screenshots''),
                               (''viewports'', PList (map (PStr \<circ> fst) d))]\<rparr>)
      else if ux_mode self = ''screenshot'' then
        (case ux_screenshot self of
           None \<Rightarrow> Inl ''expected str, bytes or os.PathLike object, not NoneType''
         | Some path \<Rightarrow>
             (case load_screenshot w path of
                Inl e \<Rightarrow> Inl e
              | Inr screenshot_data \<Rightarrow>
                  Inr \<lparr>mode = ux_mode self, screenshots = [(''default'', screenshot_data)],
                        accessibility = None,
                        metadata = [(''source'', PStr ''provided_screenshot''),
                                    (''viewport'', PStr ''default'')]\<rparr>))
      else Inr \<lparr>mode = ux_mode self, screenshots = [], accessibility = None, metadata = []\<rparr>)"

section \<open>HTML content extraction\<close>

text \<open>
  From \<^verbatim>\<open>src/extractors/html_extractor.py\<close>. The parser is a library; \<open>soup\<close> is
  the parsed document as the extractor's queries see it, each field in document order:
  the text of every \<^verbatim>\<open>h1\<close>, \<^verbatim>\<open>h2\<close> and \<^verbatim>\<open>h3\<close>, the visible text (scripts and
  styles removed, whitespace collapsed) and its word tokens
  (\<^verbatim>\<open>re.findall(r'\b\w+\b', text)\<close>), the whitespace-separated tokens of every
  \<^verbatim>\<open>p\<close>, the numbers of \<^verbatim>\<open>ul\<close>/\<^verbatim>\<open>ol\<close> and of \<^verbatim>\<open>table\<close> elements, the
  \<^verbatim>\<open>alt\<close> and \<^verbatim>\<open>src\<close> attributes of every \<^verbatim>\<open>img\<close> (\<open>None\<close> when the attribute
  is missing) and the \<^verbatim>\<open>href\<close> of every \<^verbatim>\<open>a\<close> that has one.
\<close>

record img_tag =
  alt :: "string option"
  src :: "string option"

record soup =
  h1_tags :: "string list"
  h2_tags :: "string list"
  h3_tags :: "string list"
  visible_text :: string
  words :: "string list"
  p_tags :: "string list list"
  list_tags :: nat
  table_tags :: nat
  img_tags :: "img_tag list"
  a_hrefs :: "string list"

text \<open>
  The fields of the dataclass \<^verbatim>\<open>SEOFeatures\<close> that the heading, content, link, image
  and content-depth extractors write or read. The other extractors of \<^verbatim>\<open>extract\<close>
  (meta tags, structured data, social tags, URL structure, keywords, language,
  navigation, freshness) write other fields only and are left out. The field
  \<^verbatim>\<open>text\<close> is named \<open>page_text\<close> here. Floats are carried as rationals.
\<close>

record SEOFeatures =
  h1_count :: nat
  h1_texts :: "string list"
  h2_count :: nat
  h2_texts :: "string list"
  h3_count :: nat
  h3_texts :: "string list"
  word_count :: nat
  page_text :: "string option"
  paragraph_count :: nat
  average_paragraph_length :: rat
  readability_score :: "string option"
  content_depth_score :: int
  has_lists :: bool
  list_count :: nat
  has_tables :: bool
  table_count :: nat
  internal_links :: nat
  external_links :: nat
  total_links :: nat
  total_images :: nat
  images_with_alt :: nat
  images_without_alt :: nat
  missing_alt_images :: "string list"

definition SEOFeatures_init :: SEOFeatures where
  "SEOFeatures_init =
     \<lparr>h1_count = 0, h1_texts = [], h2_count = 0, h2_texts = [], h3_count = 0, h3_texts = [],
      word_count = 0, page_text = None, paragraph_count = 0, average_paragraph_length = 0,
      readability_score = None, content_depth_score = 0, has_lists = False, list_count = 0,
      has_tables = False, table_count = 0, internal_links = 0, external_links = 0,
      total_links = 0, total_images = 0, images_with_alt = 0, images_without_alt = 0,
      missing_alt_images = []\<rparr>"

text \<open>
  What comes from outside the program: \<open>fetch\<close> is the \<^verbatim>\<open>GET\<close> of
  \<^verbatim>\<open>_fetch_html\<close> (the response text, \<open>None\<close> when it raises a
  \<^verbatim>\<open>RequestException\<close>), \<open>parse\<close> the HTML parser, and \<open>round1\<close> is
  \<^verbatim>\<open>round(x, 1)\<close> on floats. \<open>netloc\<close> is \<^verbatim>\<open>urlparse(x).netloc\<close> and \<open>urljoin\<close>
  is \<^verbatim>\<open>urljoin\<close> of \<^verbatim>\<open>urllib.parse\<close>: each returns its value (\<open>Inr\<close>) or raises
  \<^verbatim>\<open>ValueError\<close> (\<open>Inl\<close>, with the text of the exception), as it does for an
  address such as \<^verbatim>\<open>http://[bad\<close>.
\<close>

record web =
  fetch :: "string \<Rightarrow> string option"
  parse :: "string \<Rightarrow> soup"
  netloc :: "string \<Rightarrow> string + string"
  urljoin :: "string \<Rightarrow> string \<Rightarrow> string + string"
  round1 :: "rat \<Rightarrow> rat"

record HtmlContentExtractor =
  hx_url :: "string option"
  hx_html :: "string option"
  hx_soup :: "soup option"
  features :: SEOFeatures

text \<open>
  \<^verbatim>\<open>_fetch_html\<close> and the constructor. A \<^verbatim>\<open>RequestException\<close> is swallowed (the
  handler returns), so the extractor is left without markup and without a parsed
  document.
\<close>

definition fetch_html :: "web \<Rightarrow> HtmlContentExtractor \<Rightarrow> HtmlContentExtractor" where
  "fetch_html w self =
     (case hx_url self of
        None \<Rightarrow> self
      | Some u \<Rightarrow> (case fetch w u of None \<Rightarrow> self | Some t \<Rightarrow> self\<lparr>hx_html := Some t\<rparr>))"

definition HtmlContentExtractor_init ::
  "web \<Rightarrow> string option \<Rightarrow> string option \<Rightarrow> HtmlContentExtractor" where
  "HtmlContentExtractor_init w u h =
     (let self = \<lparr>hx_url = u, hx_html = h, hx_soup = None, features = SEOFeatures_init\<rparr>;
          self = (if given u \<and> \<not> given h then fetch_html w self else self)
      in case hx_html self of
           None \<Rightarrow> self
         | Some t \<Rightarrow> if t \<noteq> [] then self\<lparr>hx_soup := Some (parse w t)\<rparr> else self)"

text \<open>
  \<^verbatim>\<open>extract_headings\<close>, \<^verbatim>\<open>extract_content_metrics\<close> (its word count) and
  \<^verbatim>\<open>extract_text\<close>.
\<close>

definition extract_headings :: "HtmlContentExtractor \<Rightarrow> HtmlContentExtractor" where
  "extract_headings self =
     (case hx_soup self of
        None \<Rightarrow> self
      | Some d \<Rightarrow>
          self\<lparr>features := (features self)
            \<lparr>h1_count := length (h1_tags d), h1_texts := h1_tags d,
             h2_count := length (h2_tags d), h2_texts := h2_tags d,
             h3_count := length (h3_tags d), h3_texts := h3_tags d\<rparr>\<rparr>)"

definition extract_content_metrics :: "HtmlContentExtractor \<Rightarrow> HtmlContentExtractor" where
  "extract_content_metrics self =
     (case hx_soup self of
        None \<Rightarrow> self
      | Some d \<Rightarrow> self\<lparr>features := (features self)\<lparr>word_count := length (words d)\<rparr>\<rparr>)"

definition extract_text :: "HtmlContentExtractor \<Rightarrow> HtmlContentExtractor" where
  "extract_text self =
     (case hx_soup self of
        None \<Rightarrow> self
      | Some d \<Rightarrow> self\<lparr>features := (features self)\<lparr>page_text := Some (visible_text d)\<rparr>\<rparr>)"

text \<open>
  \<^verbatim>\<open>extract_link_features\<close>. \<open>link_step\<close> is the body of the loop over the anchors
  and \<open>link_loop\<close> the loop. Nothing in \<^verbatim>\<open>extract\<close> catches the \<^verbatim>\<open>ValueError\<close>
  of a library call: the loop stops there and the exception leaves \<^verbatim>\<open>extract\<close>,
  with the counters as the links before it left them and \<open>total_links\<close> not
  reassigned. A method that can raise returns the object as it leaves it together with
  \<open>None\<close> when it returns and \<open>Some e\<close> when it raises \<open>e\<close>.
\<close>

definition link_step ::
  "web \<Rightarrow> string \<Rightarrow> string \<Rightarrow> string \<Rightarrow> SEOFeatures \<Rightarrow> string + SEOFeatures" where
  "link_step w u base_domain href f =
     (if startswith href ''#'' \<or> startswith href ''javascript:'' then Inr f
      else
        (case urljoin w u href of
           Inl e \<Rightarrow> Inl e
         | Inr absolute_url \<Rightarrow>
             (case netloc w absolute_url of
                Inl e \<Rightarrow> Inl e
              | Inr link_domain \<Rightarrow>
                  Inr (if link_domain = base_domain
                       then f\<lparr>internal_links := internal_links f + 1\<rparr>
                       else if link_domain \<noteq> []
                       then f\<lparr>external_links := external_links f + 1\<rparr>
                       else f))))"

fun link_loop ::
  "web \<Rightarrow> string \<Rightarrow> string \<Rightarrow> string list \<Rightarrow> SEOFeatures \<Rightarrow> SEOFeatures \<times> string option"
  where
  "link_loop w u base_domain [] f = (f, None)"
| "link_loop w u base_domain (href # links) f =
     (case link_step w u base_domain href f of
        Inl e \<Rightarrow> (f, Some e)
      | Inr f' \<Rightarrow> link_loop w u base_domain links f')"

definition extract_link_features ::
  "web \<Rightarrow> HtmlContentExtractor \<Rightarrow> HtmlContentExtractor \<times> string option" where
  "extract_link_features w self =
     (case hx_soup self of
        None \<Rightarrow> (self, None)
      | Some d \<Rightarrow>
          (case hx_url self of
             None \<Rightarrow> (self, None)
           | Some u \<Rightarrow>
               if u = [] then (self, None)
               else
                 (case netloc w u of
                    Inl e \<Rightarrow> (self, Some e)
                  | Inr base_domain \<Rightarrow>
                      (case link_loop w u base_domain (a_hrefs d) (features self) of
                         (f, Some e) \<Rightarrow> (self\<lparr>features := f\<rparr>, Some e)
                       | (f, None) \<Rightarrow>
                           (self\<lparr>features :=
                                   f\<lparr>total_links := internal_links f + external_links f\<rparr>\<rparr>,
                            None)))))"

text \<open>
  \<^verbatim>\<open>extract_image_features\<close>: \<open>image_step\<close> is the body of the loop over the images.
  \<open>strip\<close> is \<^verbatim>\<open>str.strip()\<close>; a character is a code point below 256, and
  \<open>isspace\<close> lists the white space among them.
\<close>

definition isspace :: "char \<Rightarrow> bool" where
  "isspace c = (of_char c \<in> {9, 10, 11, 12, 13, 28, 29, 30, 31, 32, 133, 160 :: nat})"

definition strip :: "string \<Rightarrow> string" where
  "strip s = rev (dropWhile isspace (rev (dropWhile isspace s)))"

definition attr_get :: "string option \<Rightarrow> string \<Rightarrow> string" where
  "attr_get a d = (case a of None \<Rightarrow> d | Some v \<Rightarrow> v)"

definition image_step :: "img_tag \<Rightarrow> SEOFeatures \<Rightarrow> SEOFeatures" where
  "image_step img f =
     (let alt_text = attr_get (alt img) [];
          src_text = attr_get (src img) []
      in if alt_text \<noteq> [] \<and> strip alt_text \<noteq> []
         then f\<lparr>images_with_alt := images_with_alt f + 1\<rparr>
         else
           (let f = f\<lparr>images_without_alt := images_without_alt f + 1\<rparr>
            in if src_text \<noteq> []
               then f\<lparr>missing_alt_images := missing_alt_images f @ [take 100 src_text]\<rparr>
               else f))"

definition extract_image_features :: "HtmlContentExtractor \<Rightarrow> HtmlContentExtractor" where
  "extract_image_features self =
     (case hx_soup self of
        None \<Rightarrow> self
      | Some d \<Rightarrow>
          (let images = img_tags d;
               f = (features self)\<lparr>total_images := length images\<rparr>
           in self\<lparr>features := fold image_step images f\<rparr>))"

text \<open>
  \<^verbatim>\<open>extract_content_depth\<close>. \<open>depth_score\<close> is the additive score before the final
  \<^verbatim>\<open>min(score, 100)\<close>. The comparisons of the alt-text ratio with 0.8 and of the
  average word length with 5 and 6 are made on the exact quotients; the floating-point
  quotients compare the same way for every count below \<open>2 ^ 53\<close>.
\<close>

definition depth_score :: "SEOFeatures \<Rightarrow> int" where
  "depth_score f =
     (if word_count f \<ge> 2000 then 30
      else if word_count f \<ge> 1000 then 20
      else if word_count f \<ge> 500 then 10
      else if word_count f \<ge> 300 then 5 else 0)
     + (if paragraph_count f \<ge> 10 then 10 else if paragraph_count f \<ge> 5 then 5 else 0)
     + (if average_paragraph_length f \<ge> 30 then 10
        else if average_paragraph_length f \<ge> 15 then 5 else 0)
     + (if has_lists f then 10 else 0)
     + (if has_tables f then 10 else 0)
     + (if h1_count f = 1 then 5 else 0)
     + (if h2_count f \<ge> 3 then 5 else 0)
     + (if h3_count f \<ge> 2 then 5 else 0)
     + (if total_images f \<ge> 5 then 10 else if total_images f \<ge> 2 then 5 else 0)
     + (if images_with_alt f > 0
           \<and> (of_nat (images_with_alt f) :: rat) / of_nat (max (total_images f) 1) \<ge> 4 / 5
        then 5 else 0)"

definition readability :: "SEOFeatures \<Rightarrow> string option" where
  "readability f =
     (if word_count f > 0 then
        (let avg_word_length =
               (of_nat (length (filter (\<lambda>c. c \<noteq> CHR '' '') (attr_get (page_text f) []))) :: rat)
               / of_nat (word_count f)
         in if avg_word_length < 5 then Some ''Easy''
            else if avg_word_length < 6 then Some ''Moderate''
            else Some ''Complex'')
      else readability_score f)"

definition extract_content_depth :: "web \<Rightarrow> HtmlContentExtractor \<Rightarrow> HtmlContentExtractor" where
  "extract_content_depth w self =
     (case hx_soup self of
        None \<Rightarrow> self
      | Some d \<Rightarrow>
          (let paragraphs = p_tags d;
               f = (features self)\<lparr>paragraph_count := length paragraphs\<rparr>;
               f = (if paragraphs \<noteq> []
                    then f\<lparr>average_paragraph_length :=
                            round1 w (of_nat (sum_list (map length paragraphs))
                                      / of_nat (length paragraphs))\<rparr>
                    else f);
               f = f\<lparr>list_count := list_tags d, has_lists := list_tags d > 0\<rparr>;
               f = f\<lparr>table_count := table_tags d, has_tables := table_tags d > 0\<rparr>;
               f = f\<lparr>content_depth_score := min (depth_score f) 100\<rparr>;
               f = f\<lparr>readability_score := readability f\<rparr>
           in self\<lparr>features := f\<rparr>))"

text \<open>
  \<^verbatim>\<open>HtmlContentExtractor.extract\<close>, restricted to the extractors above, in the order
  of the source. It returns the error dictionary when there is no parsed document;
  otherwise it runs the extractors on the object and returns a copy of the features,
  unless the link extractor raises, in which case the exception leaves \<^verbatim>\<open>extract\<close>
  and no feature set is produced. The first component of the result is the extractor
  object as the call leaves it: the features are attributes of the object, and the
  counters that the loops increment are not reset by a later call.
\<close>

datatype extract_result =
    Raised string
  | ErrorDict string
  | Features SEOFeatures

definition HtmlContentExtractor_extract ::
  "web \<Rightarrow> HtmlContentExtractor \<Rightarrow> HtmlContentExtractor \<times> extract_result" where
  "HtmlContentExtractor_extract w self =
     (case hx_soup self of
        None \<Rightarrow> (self, ErrorDict ''No HTML content to analyze'')
      | Some d \<Rightarrow>
          (case extract_link_features w
                  (extract_text (extract_content_metrics (extract_headings self))) of
             (self, Some e) \<Rightarrow> (self, Raised e)
           | (self, None) \<Rightarrow>
               (let self = extract_content_depth w (extract_image_features self)
                in (self, Features (features self)))))"

text \<open>
  The feature set a call produced, if it produced one; and the extractor object after
  \<open>n\<close> calls of \<^verbatim>\<open>extract\<close> (a caller that catches the exception of one call, as
  the workflow step does, can call again).
\<close>

definition result_features :: "extract_result \<Rightarrow> SEOFeatures option" where
  "result_features r = (case r of Features f \<Rightarrow> Some f | _ \<Rightarrow> None)"

fun extract_runs :: "web \<Rightarrow> nat \<Rightarrow> HtmlContentExtractor \<Rightarrow> HtmlContentExtractor" where
  "extract_runs w 0 self = self"
| "extract_runs w (Suc n) self = extract_runs w n (fst (HtmlContentExtractor_extract w self))"

section \<open>Projections and example inputs used in the proofs\<close>

text \<open>The link fields and the image fields of the features.\<close>

definition link_fields :: "SEOFeatures \<Rightarrow> nat \<times> nat \<times> nat" where
  "link_fields f = (internal_links f, external_links f, total_links f)"

definition image_fields :: "SEOFeatures \<Rightarrow> nat \<times> nat \<times> nat \<times> string list" where
  "image_fields f = (total_images f, images_with_alt f, images_without_alt f, missing_alt_images f)"

text \<open>
  An image has an alt text when its \<^verbatim>\<open>alt\<close> attribute is present and has a character
  that is not white space.
\<close>

definition has_alt_text :: "img_tag \<Rightarrow> bool" where
  "has_alt_text i = (case alt i of None \<Rightarrow> False | Some a \<Rightarrow> (\<exists>c \<in> set a. \<not> isspace c))"

text \<open>
  A page with one \<^verbatim>\<open>h1\<close>, three images and three anchors, and the library functions
  that serve it (they raise on the address \<^verbatim>\<open>http://[bad\<close>); a file system with one
  readable screenshot; a browser whose page has two images without alt text, one
  unlabeled input, no language attribute and no \<^verbatim>\<open>h1\<close>.
\<close>

definition example_page :: soup where
  "example_page =
     \<lparr>h1_tags = [''A''], h2_tags = [], h3_tags = [], visible_text = ''A about'',
      words = [''A'', ''about''], p_tags = [], list_tags = 0, table_tags = 0,
      img_tags = [\<lparr>alt = None, src = Some ''x.png''\<rparr>,
                  \<lparr>alt = Some ''logo'', src = Some ''logo.png''\<rparr>,
                  \<lparr>alt = Some ''  '', src = None\<rparr>],
      a_hrefs = [''/about'', ''https://other.org/x'', ''#top'']\<rparr>"

definition example_web :: web where
  "example_web =
     \<lparr>fetch = (\<lambda>u. None),
      parse = (\<lambda>t. example_page),
      netloc = (\<lambda>s. if s = ''http://[bad'' then Inl ''Invalid IPv6 URL''
                     else if prefix ''https://example.com'' s then Inr ''example.com''
                     else if prefix ''https://other.org'' s then Inr ''other.org''
                     else Inr []),
      urljoin = (\<lambda>b r. if r = ''http://[bad'' then Inl ''Invalid IPv6 URL''
                        else if prefix ''https://'' r then Inr r
                        else Inr (''https://example.com'' @ r)),
      round1 = (\<lambda>x. x)\<rparr>"

definition example_files :: uiux_world where
  "example_files =
     \<lparr>path_exists = (\<lambda>p. p \<noteq> ''missing.png''),
      read_file = (\<lambda>p. if p = ''mobile.png'' then Inr ''hi'' else Inl ''Permission denied''),
      b64encode = (\<lambda>b. if b = ''hi'' then ''aGk='' else []),
      playwright_installed = False,
      browser_ok = False,
      capture = (\<lambda>u v. Inl ''no browser''),
      probe = (\<lambda>u. None)\<rparr>"

definition example_browser :: uiux_world where
  "example_browser =
     \<lparr>path_exists = (\<lambda>p. False),
      read_file = (\<lambda>p. Inl ''No such file''),
      b64encode = (\<lambda>b. []),
      playwright_installed = True,
      browser_ok = True,
      capture = (\<lambda>u v. Inl ''Timeout 30000ms exceeded''),
      probe = (\<lambda>u. Some \<lparr>dom_images_without_alt = 2, dom_links_without_text = 0,
                           dom_inputs_without_labels = 1, dom_has_lang = False,
                           dom_heading_issues = [''No H1 heading found'']\<rparr>)\<rparr>"

section \<open>Properties of the dictionary operations\<close>

lemma map_of_dict_set: "map_of (dict_set d k v) = (map_of d)(k \<mapsto> v)"
  by (simp add: dict_set_def update_conv')

lemma dict_get_dict_set:
  "dict_get (dict_set d k v) k' = (if k' = k then v else dict_get d k')"
  by (simp add: dict_get_def map_of_dict_set)

lemma map_of_dict_update: "map_of (dict_update d other) = map_of d ++ map_of (rev other)"
proof (induction other arbitrary: d)
  case Nil
  then show ?case by (simp add: dict_update_def)
next
  case (Cons x xs)
  obtain k v where x: "x = (k, v)" by (cases x)
  have "dict_update d (x # xs) = dict_update (dict_set d k v) xs"
    by (simp add: dict_update_def x)
  then show ?case
    by (auto simp: Cons.IH map_of_dict_set x map_add_def fun_eq_iff split: option.splits)
qed

lemma to_dict_lookup:
  "map_of (to_dict keys f) k = (if k \<in> set keys then Some (dict_get f k) else None)"
  by (induction keys) (auto simp: to_dict_def)

lemma to_dict_rev_lookup:
  "map_of (rev (to_dict keys f)) k = (if k \<in> set keys then Some (dict_get f k) else None)"
proof -
  have "rev (to_dict keys f) = to_dict (rev keys) f"
    by (simp add: to_dict_def rev_map)
  then show ?thesis by (simp add: to_dict_lookup)
qed

lemma fill_missing_keeps:
  "dict_get c k \<noteq> PNone \<Longrightarrow> dict_get (fill_missing c l) k = dict_get c k"
proof (induction l arbitrary: c)
  case Nil
  then show ?case by (simp add: fill_missing_def)
next
  case (Cons x xs)
  obtain key val where x: "x = (key, val)" by (cases x)
  let ?c' = "if dict_get c key = PNone then dict_set c key val else c"
  have step: "fill_missing c (x # xs) = fill_missing ?c' xs"
    by (simp add: fill_missing_def x)
  have same: "dict_get ?c' k = dict_get c k"
    using Cons.prems by (auto simp: dict_get_dict_set)
  with Cons.prems Cons.IH [of ?c'] step show ?case by simp
qed

lemma fill_missing_fills:
  "distinct (map fst l) \<Longrightarrow> dict_get c k = PNone \<Longrightarrow>
   dict_get (fill_missing c l) k = dict_get l k"
proof (induction l arbitrary: c)
  case Nil
  then show ?case by (simp add: fill_missing_def dict_get_def)
next
  case (Cons x xs)
  obtain key val where x: "x = (key, val)" by (cases x)
  let ?c' = "if dict_get c key = PNone then dict_set c key val else c"
  have step: "fill_missing c (x # xs) = fill_missing ?c' xs"
    by (simp add: fill_missing_def x)
  show ?case
  proof (cases "k = key")
    case True
    then have notin: "k \<notin> fst ` set xs" using Cons.prems(1) x by auto
    then have xs_none: "dict_get xs k = PNone"
      using map_of_eq_None_iff [of xs k] by (simp add: dict_get_def)
    have c': "dict_get ?c' k = val" using True Cons.prems(2) by (simp add: dict_get_dict_set)
    show ?thesis
    proof (cases "val = PNone")
      case True
      with c' have "dict_get ?c' k = PNone" by simp
      then have "dict_get (fill_missing ?c' xs) k = dict_get xs k"
        using Cons.IH [of ?c'] Cons.prems(1) by simp
      then show ?thesis using step xs_none True \<open>k = key\<close> x by (simp add: dict_get_def)
    next
      case False
      with c' have "dict_get (fill_missing ?c' xs) k = val"
        using fill_missing_keeps [of ?c' k xs] by simp
      then show ?thesis using step \<open>k = key\<close> x by (simp add: dict_get_def)
    qed
  next
    case False
    then have "dict_get ?c' k = PNone" using Cons.prems(2) by (simp add: dict_get_dict_set)
    then have "dict_get (fill_missing ?c' xs) k = dict_get xs k"
      using Cons.IH [of ?c'] Cons.prems(1) by simp
    then show ?thesis using step False x by (simp add: dict_get_def)
  qed
qed

lemma dict_get_dict_update:
  "dict_get (dict_update d other) k =
     (case map_of (rev other) k of None \<Rightarrow> dict_get d k | Some v \<Rightarrow> v)"
  by (simp add: dict_get_def map_of_dict_update map_add_def split: option.splits)

lemma map_of_rev_distinct: "distinct (map fst xs) \<Longrightarrow> map_of (rev xs) = map_of xs"
proof (induction xs)
  case Nil
  then show ?case by simp
next
  case (Cons x xs)
  obtain k v where x: "x = (k, v)" by (cases x)
  from Cons.prems x have "map_of xs k = None"
    by (simp add: map_of_eq_None_iff)
  with Cons x show ?case
    by (auto simp: fun_eq_iff map_add_def split: option.splits)
qed

lemma dict_get_overlay:
  assumes "distinct (map fst p)" "distinct (map fst h)"
  shows "dict_get (dict_update (dict_update [] p) h) k =
           (if dict_contains k h then dict_get h k else dict_get p k)"
proof -
  have p: "map_of (rev p) = map_of p" and h: "map_of (rev h) = map_of h"
    using assms by (simp_all add: map_of_rev_distinct)
  have c: "dict_contains k h \<longleftrightarrow> map_of h k \<noteq> None"
    by (simp add: dict_contains_def map_of_eq_None_iff)
  have "dict_get (dict_update (dict_update [] p) h) k =
          (case map_of h k of None \<Rightarrow> (case map_of p k of None \<Rightarrow> dict_get [] k | Some v \<Rightarrow> v)
           | Some v \<Rightarrow> v)"
    by (simp only: dict_get_dict_update p h)
  then show ?thesis
    by (simp add: c dict_get_def split: option.splits)
qed

lemma dict_get_to_dict:
  "k \<in> set keys \<Longrightarrow> dict_get (to_dict keys f) k = dict_get f k"
  by (simp add: dict_get_def [of "to_dict keys f"] to_dict_lookup)

lemma dict_get_record_measurements_metadata:
  "k \<in> set metadata_fields \<Longrightarrow>
   dict_get (record_measurements keys ms f) k = dict_get f k"
proof (induction ms arbitrary: f)
  case Nil
  then show ?case by (simp add: record_measurements_def)
next
  case (Cons m ms)
  obtain k' v where m: "m = (k', v)" by (cases m)
  let ?f' = "if k' \<in> set keys \<and> k' \<notin> set metadata_fields then dict_set f k' v else f"
  have "record_measurements keys (m # ms) f = record_measurements keys ms ?f'"
    by (simp add: record_measurements_def m)
  moreover have "dict_get ?f' k = dict_get f k"
    using Cons.prems by (auto simp: dict_get_dict_set)
  ultimately show ?case using Cons.IH [OF Cons.prems, of ?f'] by simp
qed

section \<open>Properties of the workflow predicates\<close>

lemma dict_get_PStr_contains:
  "dict_get d k = PStr u \<Longrightarrow> dict_contains k d"
proof -
  assume "dict_get d k = PStr u"
  then have "map_of d k = Some (PStr u)"
    by (simp add: dict_get_def split: option.splits)
  then have "(k, PStr u) \<in> set d"
    by (rule map_of_SomeD)
  then show ?thesis
    by (force simp: dict_contains_def)
qed

text \<open>
  Claim C2. An input that is a string starting with \<^verbatim>\<open>http://\<close> or \<^verbatim>\<open>https://\<close>, or a
  dictionary whose \<^verbatim>\<open>url\<close> entry is such a string, makes both the Performance
  predicate \<open>is_url_input\<close> and the SEO predicate \<open>has_url_or_html\<close> true.
\<close>

theorem url_input_is_performance_and_seo_eligible:
  assumes "(\<exists>s. input step_input = PStr s
              \<and> (startswith s ''http://'' \<or> startswith s ''https://''))
         \<or> (\<exists>d u. input step_input = PDict d \<and> dict_get d ''url'' = PStr u
              \<and> (startswith u ''http://'' \<or> startswith u ''https://''))"
  shows "is_url_input step_input \<and> has_url_or_html step_input"
  using assms
  by (auto simp: is_url_input_def has_url_or_html_def check_is_url_def
      check_has_url_or_html_def dest: dict_get_PStr_contains)

text \<open>
  The theorem of claim C2 at the string \<^verbatim>\<open>https://example.com\<close> and at a dictionary
  with the entry \<^verbatim>\<open>url = http://example.com/a\<close>.
\<close>

theorem url_input_is_performance_and_seo_eligible_witness:
  "is_url_input \<lparr>input = PStr ''https://example.com'', previous_step_content = PNone\<rparr>
   \<and> has_url_or_html \<lparr>input = PStr ''https://example.com'', previous_step_content = PNone\<rparr>
   \<and> is_url_input
        \<lparr>input = PDict [(''url'', PStr ''http://example.com/a'')], previous_step_content = PNone\<rparr>
   \<and> has_url_or_html
        \<lparr>input = PDict [(''url'', PStr ''http://example.com/a'')], previous_step_content = PNone\<rparr>"
proof -
  have a: "(\<exists>s. input \<lparr>input = PStr ''https://example.com'', previous_step_content = PNone\<rparr> = PStr s
              \<and> (startswith s ''http://'' \<or> startswith s ''https://''))
         \<or> (\<exists>d u. input \<lparr>input = PStr ''https://example.com'', previous_step_content = PNone\<rparr> = PDict d
              \<and> dict_get d ''url'' = PStr u
              \<and> (startswith u ''http://'' \<or> startswith u ''https://''))"
    by (simp add: startswith_def)
  have b: "(\<exists>s. input \<lparr>input = PDict [(''url'', PStr ''http://example.com/a'')],
                        previous_step_content = PNone\<rparr> = PStr s
              \<and> (startswith s ''http://'' \<or> startswith s ''https://''))
         \<or> (\<exists>d u. input \<lparr>input = PDict [(''url'', PStr ''http://example.com/a'')],
                        previous_step_content = PNone\<rparr> = PDict d
              \<and> dict_get d ''url'' = PStr u
              \<and> (startswith u ''http://'' \<or> startswith u ''https://''))"
    by (simp add: startswith_def dict_get_def)
  show ?thesis
    using url_input_is_performance_and_seo_eligible [OF a]
      url_input_is_performance_and_seo_eligible [OF b]
    by simp
qed

text \<open>
  Claim C3, as amended. When the classifier call fails, \<^verbatim>\<open>classify_input_step\<close>
  returns the same default classification for every input: type \<^verbatim>\<open>"unknown"\<close>,
  confidence \<^verbatim>\<open>"low"\<close>, the failure as reasoning and \<^verbatim>\<open>str(input)\<close> as normalized
  input. The shape of the input is not inspected.
\<close>

theorem classifier_failure_default:
  assumes "classifier (input step_input) = Inl e"
  shows "content (classify_input_step py_str classifier step_input) =
           PDict [(''type'', PStr ''unknown''), (''confidence'', PStr ''low''),
                  (''reasoning'', PStr (''Classification failed: '' @ e)),
                  (''normalized_input'', PStr (py_str (input step_input)))]"
  using assms by (simp add: classify_input_step_def)

text \<open>The theorem of claim C3 at a markup input.\<close>

theorem classifier_failure_default_witness:
  "content (classify_input_step (\<lambda>v. case v of PStr s \<Rightarrow> s | _ \<Rightarrow> ''?'') (\<lambda>v. Inl ''timeout'')
      \<lparr>input = PStr ''<html><body>hi</body></html>'', previous_step_content = PNone\<rparr>) =
     PDict [(''type'', PStr ''unknown''), (''confidence'', PStr ''low''),
            (''reasoning'', PStr ''Classification failed: timeout''),
            (''normalized_input'', PStr ''<html><body>hi</body></html>'')]"
  using classifier_failure_default
    [of "\<lambda>v. Inl ''timeout''"
        "\<lparr>input = PStr ''<html><body>hi</body></html>'', previous_step_content = PNone\<rparr>"
        "''timeout''" "\<lambda>v. case v of PStr s \<Rightarrow> s | _ \<Rightarrow> ''?''"]
  by simp

text \<open>
  Claim C3 as stated fails: for the input \<^verbatim>\<open>"https://example.com"\<close>, which has the
  \<^verbatim>\<open>https://\<close> prefix, a failing classifier yields type \<^verbatim>\<open>"unknown"\<close>, not a Url
  classification.
\<close>

theorem classifier_failure_url_counterexample:
  "check_is_url (PStr ''https://example.com'')
   \<and> content (classify_input_step (\<lambda>v. case v of PStr s \<Rightarrow> s | _ \<Rightarrow> ''?'') (\<lambda>v. Inl ''timeout'')
        \<lparr>input = PStr ''https://example.com'', previous_step_content = PNone\<rparr>) =
       PDict [(''type'', PStr ''unknown''), (''confidence'', PStr ''low''),
              (''reasoning'', PStr ''Classification failed: timeout''),
              (''normalized_input'', PStr ''https://example.com'')]
   \<and> PStr ''unknown'' \<noteq> PStr ''url''"
  by (simp add: classify_input_step_def check_is_url_def startswith_def)

section \<open>Properties of the performance extraction\<close>

text \<open>
  Claim C1, as amended. In \<^verbatim>\<open>analyze_performance\<close> the combined dictionary starts
  from the stage-1 items and the stage-2 items overlay them unconditionally; a field that
  is not \<^verbatim>\<open>None\<close> after these two steps is never changed by stage 3; a field that is
  \<^verbatim>\<open>None\<close> (or absent) after them receives the stage-3 value exactly when stage 3 is
  invoked, that is when stage 1 reported an \<^verbatim>\<open>api_error\<close> and the fallback is
  enabled; otherwise the result is the overlay of stages 1 and 2. For the stage-1 output
  \<^verbatim>\<open>{performance_score: 80, lcp_value: None, api_error: e}\<close> with a non-empty \<open>e\<close>,
  the stage-2 output \<^verbatim>\<open>{response_time: 120}\<close> and the stage-3 output
  \<^verbatim>\<open>{lcp_value: 2200, response_time: 999}\<close> the result is
  \<^verbatim>\<open>{performance_score: 80, lcp_value: 2200, api_error: e, response_time: 120}\<close>.
\<close>

theorem performance_merge_precedence:
  "(distinct (map fst pagespeed_data) \<and> distinct (map fst headers_data) \<longrightarrow>
      (\<forall>k. dict_get (dict_update (dict_update [] pagespeed_data) headers_data) k =
            (if dict_contains k headers_data then dict_get headers_data k
             else dict_get pagespeed_data k)))
   \<and> (\<forall>k. dict_get (dict_update (dict_update [] pagespeed_data) headers_data) k \<noteq> PNone \<longrightarrow>
          dict_get (analyze_performance_with pagespeed_data headers_data local_data use_fallback) k =
          dict_get (dict_update (dict_update [] pagespeed_data) headers_data) k)
   \<and> (distinct (map fst local_data) \<longrightarrow>
      (\<forall>k. dict_get (dict_update (dict_update [] pagespeed_data) headers_data) k = PNone \<longrightarrow>
          dict_get (analyze_performance_with pagespeed_data headers_data local_data use_fallback) k =
          (if fallback_invoked pagespeed_data use_fallback then dict_get local_data k else PNone)))
   \<and> (\<not> fallback_invoked pagespeed_data use_fallback \<longrightarrow>
        analyze_performance_with pagespeed_data headers_data local_data use_fallback =
        dict_update (dict_update [] pagespeed_data) headers_data)
   \<and> (e \<noteq> [] \<longrightarrow>
        analyze_performance_with
          [(''performance_score'', PInt 80), (''lcp_value'', PNone), (''api_error'', PStr e)]
          [(''response_time'', PInt 120)]
          [(''lcp_value'', PInt 2200), (''response_time'', PInt 999)] True =
          [(''performance_score'', PInt 80), (''lcp_value'', PInt 2200), (''api_error'', PStr e),
           (''response_time'', PInt 120)])"
proof (intro conjI impI allI)
  fix k
  assume "distinct (map fst pagespeed_data) \<and> distinct (map fst headers_data)"
  then show "dict_get (dict_update (dict_update [] pagespeed_data) headers_data) k =
            (if dict_contains k headers_data then dict_get headers_data k
             else dict_get pagespeed_data k)"
    by (simp add: dict_get_overlay)
next
  fix k
  assume "dict_get (dict_update (dict_update [] pagespeed_data) headers_data) k \<noteq> PNone"
  then show "dict_get (analyze_performance_with pagespeed_data headers_data local_data use_fallback) k =
          dict_get (dict_update (dict_update [] pagespeed_data) headers_data) k"
    by (simp add: analyze_performance_with_def Let_def fill_missing_keeps)
next
  fix k
  assume "distinct (map fst local_data)"
    and "dict_get (dict_update (dict_update [] pagespeed_data) headers_data) k = PNone"
  then show "dict_get (analyze_performance_with pagespeed_data headers_data local_data use_fallback) k =
          (if fallback_invoked pagespeed_data use_fallback then dict_get local_data k else PNone)"
    by (simp add: analyze_performance_with_def Let_def fill_missing_fills)
next
  assume "\<not> fallback_invoked pagespeed_data use_fallback"
  then show "analyze_performance_with pagespeed_data headers_data local_data use_fallback =
        dict_update (dict_update [] pagespeed_data) headers_data"
    by (simp add: analyze_performance_with_def)
next
  assume "e \<noteq> []"
  then show "analyze_performance_with
          [(''performance_score'', PInt 80), (''lcp_value'', PNone), (''api_error'', PStr e)]
          [(''response_time'', PInt 120)]
          [(''lcp_value'', PInt 2200), (''response_time'', PInt 999)] True =
          [(''performance_score'', PInt 80), (''lcp_value'', PInt 2200), (''api_error'', PStr e),
           (''response_time'', PInt 120)]"
    by (simp add: analyze_performance_with_def fallback_invoked_def dict_update_def
        dict_set_def dict_get_def fill_missing_def)
qed

text \<open>The theorem of claim C1 at the example, with \<^verbatim>\<open>api_error = "timeout"\<close>.\<close>

theorem performance_merge_precedence_witness:
  "dict_get
     (analyze_performance_with
        [(''performance_score'', PInt 80), (''lcp_value'', PNone), (''api_error'', PStr ''timeout'')]
        [(''response_time'', PInt 120)]
        [(''lcp_value'', PInt 2200), (''response_time'', PInt 999)] True) ''response_time'' = PInt 120
   \<and> dict_get
     (analyze_performance_with
        [(''performance_score'', PInt 80), (''lcp_value'', PNone), (''api_error'', PStr ''timeout'')]
        [(''response_time'', PInt 120)]
        [(''lcp_value'', PInt 2200), (''response_time'', PInt 999)] True) ''lcp_value'' = PInt 2200
   \<and> analyze_performance_with
        [(''performance_score'', PInt 80), (''lcp_value'', PNone), (''api_error'', PStr ''timeout'')]
        [(''response_time'', PInt 120)]
        [(''lcp_value'', PInt 2200), (''response_time'', PInt 999)] True =
        [(''performance_score'', PInt 80), (''lcp_value'', PInt 2200),
         (''api_error'', PStr ''timeout''), (''response_time'', PInt 120)]"
  using performance_merge_precedence
    [of "[(''performance_score'', PInt 80), (''lcp_value'', PNone), (''api_error'', PStr ''timeout'')]"
        "[(''response_time'', PInt 120)]"
        "[(''lcp_value'', PInt 2200), (''response_time'', PInt 999)]" True "''timeout''"]
  by (simp add: dict_get_def)

text \<open>
  Claim C1 as stated fails at its own example: the stage-1 output
  \<^verbatim>\<open>{performance_score: 80, lcp_value: None}\<close> carries no \<^verbatim>\<open>api_error\<close>, so the
  guard of step 3 is false, stage 3 is not consulted and \<^verbatim>\<open>lcp_value\<close> stays
  \<^verbatim>\<open>None\<close>.
\<close>

theorem performance_merge_example_counterexample:
  "analyze_performance_with
     [(''performance_score'', PInt 80), (''lcp_value'', PNone)]
     [(''response_time'', PInt 120)]
     [(''lcp_value'', PInt 2200), (''response_time'', PInt 999)] True =
     [(''performance_score'', PInt 80), (''lcp_value'', PNone), (''response_time'', PInt 120)]
   \<and> analyze_performance_with
     [(''performance_score'', PInt 80), (''lcp_value'', PNone)]
     [(''response_time'', PInt 120)]
     [(''lcp_value'', PInt 2200), (''response_time'', PInt 999)] True \<noteq>
     [(''performance_score'', PInt 80), (''lcp_value'', PInt 2200), (''response_time'', PInt 120)]"
  by (simp add: analyze_performance_with_def fallback_invoked_def dict_update_def
      dict_set_def dict_get_def fill_missing_def)

lemma default_analysis_source:
  "dict_get (TechnicalPerformanceFeatures u) ''analysis_source'' = PStr ''unknown''"
  by (simp add: TechnicalPerformanceFeatures_def dict_get_def)

lemma default_api_error:
  "dict_get (TechnicalPerformanceFeatures u) ''api_error'' = PNone"
  by (simp add: TechnicalPerformanceFeatures_def dict_get_def)

lemma default_fallback_used:
  "dict_get (TechnicalPerformanceFeatures u) ''fallback_used'' = PBool False"
  by (simp add: TechnicalPerformanceFeatures_def dict_get_def)

lemma metadata_members:
  "''analysis_source'' \<in> set metadata_fields"
  "''api_error'' \<in> set metadata_fields"
  "''fallback_used'' \<in> set metadata_fields"
  by (simp_all add: metadata_fields_def)

lemma pagespeed_members:
  "''analysis_source'' \<in> set pagespeed_keys"
  "''api_error'' \<in> set pagespeed_keys"
  "''fallback_used'' \<in> set pagespeed_keys"
  by (simp_all add: pagespeed_keys_def)

lemma header_members:
  "''analysis_source'' \<in> set header_keys"
  "''api_error'' \<in> set header_keys"
  "''fallback_used'' \<notin> set header_keys"
  by (simp_all add: header_keys_def)

lemma local_members:
  "''analysis_source'' \<in> set local_keys"
  "''api_error'' \<in> set local_keys"
  "''fallback_used'' \<notin> set local_keys"
  by (simp_all add: local_keys_def)

lemma pagespeed_analysis_source:
  "dict_get (PerformanceAnalyzer_extract u a) ''analysis_source'' =
     (case a of ApiOk ms now \<Rightarrow> PStr ''pagespeed'' | _ \<Rightarrow> PStr ''unknown'')"
  by (simp add: PerformanceAnalyzer_extract_def Let_def dict_get_to_dict pagespeed_members
      dict_get_dict_set default_analysis_source split: api_outcome.splits)

lemma header_analysis_source:
  "dict_get (HeaderAnalyzer_extract u h) ''analysis_source'' =
     (case h of HeadOk ms now \<Rightarrow> PStr ''headers'' | _ \<Rightarrow> PStr ''unknown'')"
  by (simp add: HeaderAnalyzer_extract_def Let_def dict_get_to_dict header_members
      dict_get_dict_set default_analysis_source split: head_outcome.splits)

lemma local_analysis_source:
  "dict_get (LocalPerformanceAnalyzer_extract u b) ''analysis_source'' =
     (case b of LocalOk ms now \<Rightarrow> PStr ''local'' | _ \<Rightarrow> PStr ''unknown'')"
  by (simp add: LocalPerformanceAnalyzer_extract_def Let_def dict_get_to_dict local_members
      dict_get_dict_set default_analysis_source dict_get_record_measurements_metadata
      metadata_members split: local_outcome.splits)

lemma pagespeed_api_error:
  "dict_get (PerformanceAnalyzer_extract u a) ''api_error'' =
     (case a of ApiOk ms now \<Rightarrow> PNone
      | RequestException e \<Rightarrow> PStr (''PageSpeed API request failed: '' @ e)
      | OtherException e \<Rightarrow> PStr (''Unexpected error during PageSpeed analysis: '' @ e))"
  by (simp add: PerformanceAnalyzer_extract_def Let_def dict_get_to_dict pagespeed_members
      dict_get_dict_set default_api_error dict_get_record_measurements_metadata
      metadata_members split: api_outcome.splits)

lemma pagespeed_fallback_used:
  "dict_get (PerformanceAnalyzer_extract u a) ''fallback_used'' =
     (case a of RequestException e \<Rightarrow> PBool True | _ \<Rightarrow> PBool False)"
  by (simp add: PerformanceAnalyzer_extract_def Let_def dict_get_to_dict pagespeed_members
      dict_get_dict_set default_fallback_used dict_get_record_measurements_metadata
      metadata_members split: api_outcome.splits)

lemma fallback_invoked_iff:
  "fallback_invoked (PerformanceAnalyzer_extract u a) use_fallback \<longleftrightarrow>
     (case a of ApiOk ms now \<Rightarrow> False | _ \<Rightarrow> use_fallback)"
  by (simp add: fallback_invoked_def pagespeed_api_error split: api_outcome.splits)

lemma dict_get_update_to_dict:
  "dict_get (dict_update d (to_dict keys f)) k =
     (if k \<in> set keys then dict_get f k else dict_get d k)"
  by (simp add: dict_get_dict_update to_dict_rev_lookup)

lemma merged_from_stage2:
  "k \<in> set header_keys \<Longrightarrow>
   dict_get (dict_update (dict_update [] (PerformanceAnalyzer_extract u a))
      (HeaderAnalyzer_extract u h)) k = dict_get (HeaderAnalyzer_extract u h) k"
  unfolding HeaderAnalyzer_extract_def Let_def
  by (simp add: dict_get_update_to_dict dict_get_to_dict)

lemma merged_from_stage1:
  "k \<notin> set header_keys \<Longrightarrow> k \<in> set pagespeed_keys \<Longrightarrow>
   dict_get (dict_update (dict_update [] (PerformanceAnalyzer_extract u a))
      (HeaderAnalyzer_extract u h)) k = dict_get (PerformanceAnalyzer_extract u a) k"
  unfolding HeaderAnalyzer_extract_def PerformanceAnalyzer_extract_def Let_def
  by (simp add: dict_get_update_to_dict dict_get_to_dict)

lemma merged_analysis_source:
  "dict_get (analyze_performance w u use_fallback) ''analysis_source'' =
   dict_get (HeaderAnalyzer_extract u (head w)) ''analysis_source''"
proof -
  let ?base = "dict_update (dict_update [] (PerformanceAnalyzer_extract u (api w)))
      (HeaderAnalyzer_extract u (head w))"
  have b: "dict_get ?base ''analysis_source'' = dict_get (HeaderAnalyzer_extract u (head w)) ''analysis_source''"
    by (rule merged_from_stage2) (rule header_members)
  then have "dict_get ?base ''analysis_source'' \<noteq> PNone"
    by (simp add: header_analysis_source split: head_outcome.splits)
  then show ?thesis
    using b by (simp add: analyze_performance_def analyze_performance_with_def Let_def fill_missing_keeps)
qed

lemma merged_fallback_used:
  "dict_get (analyze_performance w u use_fallback) ''fallback_used'' =
   dict_get (PerformanceAnalyzer_extract u (api w)) ''fallback_used''"
proof -
  let ?base = "dict_update (dict_update [] (PerformanceAnalyzer_extract u (api w)))
      (HeaderAnalyzer_extract u (head w))"
  have b: "dict_get ?base ''fallback_used'' = dict_get (PerformanceAnalyzer_extract u (api w)) ''fallback_used''"
    by (rule merged_from_stage1) (rule header_members pagespeed_members)+
  then have "dict_get ?base ''fallback_used'' \<noteq> PNone"
    by (simp add: pagespeed_fallback_used split: api_outcome.splits)
  then show ?thesis
    using b by (simp add: analyze_performance_def analyze_performance_with_def Let_def fill_missing_keeps)
qed

text \<open>
  Claim C5 at the failing input. When the remote audit raises an exception that is not
  a \<^verbatim>\<open>RequestException\<close>, stage 1 records \<^verbatim>\<open>api_error\<close> but leaves
  \<^verbatim>\<open>fallback_used\<close> at \<^verbatim>\<open>False\<close>; with the fallback enabled stage 3 is invoked,
  and the merged result still has \<^verbatim>\<open>fallback_used = False\<close>, whatever the header
  probe and the local measurement return. After a \<^verbatim>\<open>RequestException\<close>, the sibling
  handler, stage 3 is invoked as well and the flag is \<^verbatim>\<open>True\<close>.
\<close>

theorem fallback_used_unset_after_unexpected_error:
  "fallback_invoked (PerformanceAnalyzer_extract u (OtherException e)) True
   \<and> dict_get (analyze_performance \<lparr>api = OtherException e, head = h, browser = b\<rparr> u True)
        ''fallback_used'' = PBool False
   \<and> fallback_invoked (PerformanceAnalyzer_extract u (RequestException e)) True
   \<and> dict_get (analyze_performance \<lparr>api = RequestException e, head = h, browser = b\<rparr> u True)
        ''fallback_used'' = PBool True"
  by (simp add: fallback_invoked_iff merged_fallback_used pagespeed_fallback_used)

text \<open>
  Claim C9, as amended. The \<^verbatim>\<open>analysis_source\<close> of a stage output is
  \<^verbatim>\<open>"unknown"\<close> (the default, kept when the stage fails) or the name of the stage:
  \<^verbatim>\<open>"pagespeed"\<close>, \<^verbatim>\<open>"headers"\<close> or \<^verbatim>\<open>"local"\<close>. The merged result carries
  the value of the header probe, so it is \<^verbatim>\<open>"headers"\<close> or \<^verbatim>\<open>"unknown"\<close>.
\<close>

theorem analysis_source_values:
  "dict_get (PerformanceAnalyzer_extract u a) ''analysis_source''
     \<in> {PStr ''unknown'', PStr ''pagespeed''}
   \<and> dict_get (HeaderAnalyzer_extract u h) ''analysis_source''
     \<in> {PStr ''unknown'', PStr ''headers''}
   \<and> dict_get (LocalPerformanceAnalyzer_extract u b) ''analysis_source''
     \<in> {PStr ''unknown'', PStr ''local''}
   \<and> dict_get (analyze_performance w u use_fallback) ''analysis_source''
     = dict_get (HeaderAnalyzer_extract u (head w)) ''analysis_source''
   \<and> dict_get (analyze_performance w u use_fallback) ''analysis_source''
     \<in> {PStr ''unknown'', PStr ''headers''}"
  by (simp add: merged_analysis_source)
     (simp add: pagespeed_analysis_source header_analysis_source local_analysis_source
       split: api_outcome.splits head_outcome.splits local_outcome.splits)

text \<open>
  Claim C9 as stated fails: after a failed remote audit the stage-1 output has
  \<^verbatim>\<open>analysis_source = "unknown"\<close>, and so has the merged result when the header
  probe fails too; \<^verbatim>\<open>"unknown"\<close> is none of api, headers, local, merged.
\<close>

theorem analysis_source_unknown_counterexample:
  "dict_get (PerformanceAnalyzer_extract ''https://example.com'' (RequestException ''timeout''))
     ''analysis_source'' = PStr ''unknown''
   \<and> dict_get
       (analyze_performance
          \<lparr>api = RequestException ''timeout'', head = HeadFailed ''timeout'',
             browser = PlaywrightMissing\<rparr> ''https://example.com'' True)
       ''analysis_source'' = PStr ''unknown''
   \<and> PStr ''unknown'' \<notin> {PStr ''api'', PStr ''headers'', PStr ''local'', PStr ''merged''}"
  by (simp add: merged_analysis_source pagespeed_analysis_source header_analysis_source)

section \<open>Properties of the UI/UX extraction\<close>

lemma accessibility_score_eq:
  "accessibility_score xs =
     max 0 (100 - 15 * count_severity ''critical'' xs - 10 * count_severity ''serious'' xs
              - 5 * count_severity ''moderate'' xs)"
  by (simp add: accessibility_score_def Let_def)

lemma count_severity_nonneg: "0 \<le> count_severity sev xs"
  by (simp add: count_severity_def)

lemma count_severity_append:
  "count_severity sev (xs @ ys) = count_severity sev xs + count_severity sev ys"
  by (simp add: count_severity_def)

lemma count_severity_set_count:
  "count_severity sev (map (\<lambda>i. i\<lparr>count := n\<rparr>) xs) = count_severity sev xs"
  by (induction xs) (simp_all add: count_severity_def)

lemma run_accessibility_audit_score:
  "run_accessibility_audit w u = Some r \<Longrightarrow> score r = accessibility_score (issues r)"
  by (auto simp: run_accessibility_audit_def Let_def split: if_splits option.splits)

text \<open>
  Claim C7. For every list of accessibility issues the score is
  \<open>max 0 (100 - 15 * critical - 10 * serious - 5 * moderate)\<close>, where the three
  numbers are the numbers of entries of the list with that severity (the \<open>count\<close>
  field of an entry plays no part). So the empty list scores 100; the score lies between
  0 and 100; it does not increase when the three numbers grow, in particular when issues
  are appended; and it is 0 as soon as the deductions reach 100, however many issues
  there are. The score that \<^verbatim>\<open>_run_accessibility_audit\<close> reports is this score of the
  issues it reports.
\<close>

theorem accessibility_score_formula_monotone_floor:
  "accessibility_score xs =
     max 0 (100 - 15 * int (length (filter (\<lambda>i. severity i = ''critical'') xs))
                - 10 * int (length (filter (\<lambda>i. severity i = ''serious'') xs))
                - 5 * int (length (filter (\<lambda>i. severity i = ''moderate'') xs)))
   \<and> accessibility_score [] = 100
   \<and> accessibility_score (map (\<lambda>i. i\<lparr>count := n\<rparr>) xs) = accessibility_score xs
   \<and> 0 \<le> accessibility_score xs
   \<and> accessibility_score xs \<le> 100
   \<and> (length (filter (\<lambda>i. severity i = ''critical'') xs)
          \<le> length (filter (\<lambda>i. severity i = ''critical'') ys)
        \<and> length (filter (\<lambda>i. severity i = ''serious'') xs)
          \<le> length (filter (\<lambda>i. severity i = ''serious'') ys)
        \<and> length (filter (\<lambda>i. severity i = ''moderate'') xs)
          \<le> length (filter (\<lambda>i. severity i = ''moderate'') ys)
      \<longrightarrow> accessibility_score ys \<le> accessibility_score xs)
   \<and> accessibility_score (xs @ zs) \<le> accessibility_score xs
   \<and> (100 \<le> 15 * length (filter (\<lambda>i. severity i = ''critical'') xs)
              + 10 * length (filter (\<lambda>i. severity i = ''serious'') xs)
              + 5 * length (filter (\<lambda>i. severity i = ''moderate'') xs)
      \<longrightarrow> accessibility_score xs = 0)
   \<and> (case run_accessibility_audit w u of
         None \<Rightarrow> True
       | Some r \<Rightarrow>
           score r =
             max 0 (100 - 15 * int (length (filter (\<lambda>i. severity i = ''critical'') (issues r)))
                        - 10 * int (length (filter (\<lambda>i. severity i = ''serious'') (issues r)))
                        - 5 * int (length (filter (\<lambda>i. severity i = ''moderate'') (issues r)))))"
proof -
  let ?c = "count_severity ''critical''" and ?s = "count_severity ''serious''"
    and ?m = "count_severity ''moderate''"
  have formula: "\<And>l. accessibility_score l =
     max 0 (100 - 15 * int (length (filter (\<lambda>i. severity i = ''critical'') l))
                - 10 * int (length (filter (\<lambda>i. severity i = ''serious'') l))
                - 5 * int (length (filter (\<lambda>i. severity i = ''moderate'') l)))"
    by (simp add: accessibility_score_eq count_severity_def)
  have empty: "accessibility_score [] = 100"
    by (simp add: formula)
  have same: "accessibility_score (map (\<lambda>i. i\<lparr>count := n\<rparr>) xs) = accessibility_score xs"
    by (simp add: accessibility_score_eq count_severity_set_count)
  have nn: "0 \<le> ?c zs" "0 \<le> ?s zs" "0 \<le> ?m zs"
    by (rule count_severity_nonneg)+
  have nx: "0 \<le> ?c xs" "0 \<le> ?s xs" "0 \<le> ?m xs"
    by (rule count_severity_nonneg)+
  have floor: "0 \<le> accessibility_score xs"
    by (simp add: accessibility_score_eq)
  have top: "accessibility_score xs \<le> 100"
    unfolding accessibility_score_eq using nx by linarith
  have mono': "?c xs \<le> ?c ys \<and> ?s xs \<le> ?s ys \<and> ?m xs \<le> ?m ys
      \<longrightarrow> accessibility_score ys \<le> accessibility_score xs"
    unfolding accessibility_score_eq by linarith
  then have mono: "length (filter (\<lambda>i. severity i = ''critical'') xs)
          \<le> length (filter (\<lambda>i. severity i = ''critical'') ys)
        \<and> length (filter (\<lambda>i. severity i = ''serious'') xs)
          \<le> length (filter (\<lambda>i. severity i = ''serious'') ys)
        \<and> length (filter (\<lambda>i. severity i = ''moderate'') xs)
          \<le> length (filter (\<lambda>i. severity i = ''moderate'') ys)
      \<longrightarrow> accessibility_score ys \<le> accessibility_score xs"
    by (simp add: count_severity_def)
  have "?c xs \<le> ?c (xs @ zs) \<and> ?s xs \<le> ?s (xs @ zs) \<and> ?m xs \<le> ?m (xs @ zs)"
    using nn by (simp add: count_severity_append)
  then have app: "accessibility_score (xs @ zs) \<le> accessibility_score xs"
    unfolding accessibility_score_eq by linarith
  have zero: "100 \<le> 15 * length (filter (\<lambda>i. severity i = ''critical'') xs)
              + 10 * length (filter (\<lambda>i. severity i = ''serious'') xs)
              + 5 * length (filter (\<lambda>i. severity i = ''moderate'') xs)
      \<longrightarrow> accessibility_score xs = 0"
    unfolding formula by linarith
  have audit: "case run_accessibility_audit w u of
         None \<Rightarrow> True
       | Some r \<Rightarrow>
           score r =
             max 0 (100 - 15 * int (length (filter (\<lambda>i. severity i = ''critical'') (issues r)))
                        - 10 * int (length (filter (\<lambda>i. severity i = ''serious'') (issues r)))
                        - 5 * int (length (filter (\<lambda>i. severity i = ''moderate'') (issues r))))"
    by (simp add: run_accessibility_audit_score formula [symmetric] split: option.splits)
  from formula [of xs] empty same floor top mono app zero audit show ?thesis
    by blast
qed

text \<open>
  The theorem of claim C7 at concrete lists: no issue scores 100; one serious issue
  whose \<open>count\<close> field is 7 scores 90; seven critical issues (deduction 105) score 0,
  and so does the same list with one more serious issue; the audit of a page with two
  images lacking alt text, one unlabeled input, no language attribute and no
  \<^verbatim>\<open>h1\<close> reports four issues and the score 60.
\<close>

theorem accessibility_score_formula_monotone_floor_witness:
  "accessibility_score [] = 100
   \<and> accessibility_score
       [\<lparr>type = ''missing_alt_text'', severity = ''serious'', count = 7,
         description = ''7 images missing alt text''\<rparr>] = 90
   \<and> accessibility_score
       (map (\<lambda>d. \<lparr>type = ''unlabeled_inputs'', severity = ''critical'', count = 1, description = d\<rparr>)
          [''a'', ''b'', ''c'', ''d'', ''e'', ''f'', ''g'']) = 0
   \<and> accessibility_score
       (map (\<lambda>d. \<lparr>type = ''unlabeled_inputs'', severity = ''critical'', count = 1, description = d\<rparr>)
          [''a'', ''b'', ''c'', ''d'', ''e'', ''f'', ''g'']
        @ [\<lparr>type = ''missing_lang'', severity = ''serious'', count = 1, description = ''l''\<rparr>])
     = 0
   \<and> map_option score (run_accessibility_audit example_browser ''https://example.com'') = Some 60
   \<and> map_option (\<lambda>r. map severity (issues r))
        (run_accessibility_audit example_browser ''https://example.com'')
       = Some [''serious'', ''critical'', ''serious'', ''moderate'']"
proof -
  let ?seven = "map (\<lambda>d. \<lparr>type = ''unlabeled_inputs'', severity = ''critical'', count = 1,
                           description = d\<rparr>) [''a'', ''b'', ''c'', ''d'', ''e'', ''f'', ''g'']"
  let ?lang = "\<lparr>type = ''missing_lang'', severity = ''serious'', count = 1, description = ''l''\<rparr>"
  let ?alt = "\<lparr>type = ''missing_alt_text'', severity = ''serious'', count = 7,
               description = ''7 images missing alt text''\<rparr>"
  have i: "map_option (\<lambda>r. map severity (issues r))
        (run_accessibility_audit example_browser ''https://example.com'')
       = Some [''serious'', ''critical'', ''serious'', ''moderate'']"
    by (simp add: run_accessibility_audit_def example_browser_def audit_issues_def Let_def)
  have a: "accessibility_score [?alt] = 90"
    using accessibility_score_formula_monotone_floor
      [where xs = "[?alt]" and ys = "[?alt]" and zs = "[]" and n = 7 and w = example_browser
         and u = "''https://example.com''"]
    by simp
  have s: "accessibility_score ?seven = 0"
    using accessibility_score_formula_monotone_floor
      [where xs = ?seven and ys = "?seven @ [?lang]" and zs = "[?lang]" and n = 1
         and w = example_browser and u = "''https://example.com''"]
    by simp
  have s': "accessibility_score (?seven @ [?lang]) = 0"
    using accessibility_score_formula_monotone_floor
      [where xs = "?seven @ [?lang]" and ys = "?seven @ [?lang]" and zs = "[]" and n = 1
         and w = example_browser and u = "''https://example.com''"]
    by simp
  have e: "accessibility_score [] = 100"
    using accessibility_score_formula_monotone_floor
      [where xs = "[]" and ys = "[]" and zs = "[]" and n = 1 and w = example_browser
         and u = "''https://example.com''"]
    by simp
  have "map_option score (run_accessibility_audit example_browser ''https://example.com'') = Some 60"
    using accessibility_score_formula_monotone_floor
      [where xs = "[]" and ys = "[]" and zs = "[]" and n = 1 and w = example_browser
         and u = "''https://example.com''"] i
    by (auto split: option.splits)
  with a s s' e i show ?thesis
    by simp
qed

lemma dict_set_fresh:
  "k \<notin> fst ` set al \<Longrightarrow> dict_set al k v = al @ [(k, v)]"
  by (induction al) (auto simp: dict_set_def)

lemma load_fold_distinct:
  "distinct (map fst d) \<Longrightarrow> fst ` set acc \<inter> fst ` set d = {} \<Longrightarrow>
   fold (\<lambda>(viewport_name, screenshot_path) loaded_screenshots.
             case load_screenshot w screenshot_path of
               Inr screenshot_base64 \<Rightarrow>
                 dict_set loaded_screenshots viewport_name screenshot_base64
             | Inl e \<Rightarrow> loaded_screenshots) d acc
   = acc @ List.map_filter
        (\<lambda>(v, p). case load_screenshot w p of Inr b \<Rightarrow> Some (v, b) | Inl e \<Rightarrow> None) d"
proof (induction d arbitrary: acc)
  case Nil
  then show ?case by simp
next
  case (Cons x d)
  obtain v p where x: "x = (v, p)" by (cases x)
  have fresh: "v \<notin> fst ` set acc" using Cons.prems(2) x by auto
  have dd: "distinct (map fst d)" and vd: "v \<notin> fst ` set d" using Cons.prems(1) x by auto
  show ?case
  proof (cases "load_screenshot w p")
    case (Inl e)
    have "fst ` set acc \<inter> fst ` set d = {}" using Cons.prems(2) by auto
    from Cons.IH [OF dd this] Inl x show ?thesis by simp
  next
    case (Inr b)
    have "fst ` set (acc @ [(v, b)]) \<inter> fst ` set d = {}" using Cons.prems(2) vd by auto
    from Cons.IH [OF dd this] Inr x fresh show ?thesis
      by (simp add: dict_set_fresh)
  qed
qed

lemma load_fold_keys:
  "fst ` set (fold (\<lambda>(viewport_name, screenshot_path) loaded_screenshots.
             case load_screenshot w screenshot_path of
               Inr screenshot_base64 \<Rightarrow>
                 dict_set loaded_screenshots viewport_name screenshot_base64
             | Inl e \<Rightarrow> loaded_screenshots) d acc)
   = fst ` set acc \<union> {v. \<exists>p b. (v, p) \<in> set d \<and> load_screenshot w p = Inr b}"
proof (induction d arbitrary: acc)
  case Nil
  then show ?case by simp
next
  case (Cons x d)
  obtain v p where x: "x = (v, p)" by (cases x)
  have keys: "\<And>b. fst ` set (dict_set acc v b) = insert v (fst ` set acc)"
  proof -
    fix b
    have "set (map fst (dict_set acc v b)) = insert v (set (map fst acc))"
      by (auto simp: dict_set_def update_keys)
    then show "fst ` set (dict_set acc v b) = insert v (fst ` set acc)"
      by simp
  qed
  show ?case
    by (cases "load_screenshot w p") (auto simp: Cons.IH x keys)
qed

text \<open>
  Claim C8. \<^verbatim>\<open>_load_screenshots\<close> returns exactly the viewports whose file loads:
  the keys of the result are the viewports for which \<^verbatim>\<open>_load_screenshot\<close> returns,
  and for a map with distinct viewport names the result lists them in the order given,
  each with its encoded image. The extraction in the screenshot-set mode (no URL, a
  non-empty map) does not fail, whatever the files are: it returns that map of loaded
  screenshots.
\<close>

theorem load_screenshots_skips_failures:
  "fst ` set (load_screenshots w d) = {v. \<exists>p b. (v, p) \<in> set d \<and> load_screenshot w p = Inr b}
   \<and> (distinct (map fst d) \<longrightarrow>
        load_screenshots w d =
          List.map_filter
            (\<lambda>(v, p). case load_screenshot w p of Inr b \<Rightarrow> Some (v, b) | Inl e \<Rightarrow> None) d)
   \<and> (\<not> given u \<and> d \<noteq> [] \<longrightarrow>
        UIUXExtractor_init u shot (Some d) =
          Inr \<lparr>ux_url = u, ux_screenshot = shot, ux_screenshots = Some d,
                ux_mode = ''screenshots''\<rparr>
        \<and> UIUXExtractor_extract w
            \<lparr>ux_url = u, ux_screenshot = shot, ux_screenshots = Some d,
               ux_mode = ''screenshots''\<rparr> =
          Inr \<lparr>mode = ''screenshots'', screenshots = load_screenshots w d,
                accessibility = None,
                metadata = [(''source'', PStr ''provided_screenshots''),
                            (''viewports'', PList (map (PStr \<circ> fst) d))]\<rparr>)"
proof (intro conjI impI)
  show "fst ` set (load_screenshots w d) = {v. \<exists>p b. (v, p) \<in> set d \<and> load_screenshot w p = Inr b}"
    using load_fold_keys [of w d "[]"] by (simp add: load_screenshots_def)
next
  assume "distinct (map fst d)"
  then show "load_screenshots w d =
          List.map_filter
            (\<lambda>(v, p). case load_screenshot w p of Inr b \<Rightarrow> Some (v, b) | Inl e \<Rightarrow> None) d"
    using load_fold_distinct [of d "[]" w] by (simp add: load_screenshots_def)
next
  assume "\<not> given u \<and> d \<noteq> []"
  then show "UIUXExtractor_init u shot (Some d) =
          Inr \<lparr>ux_url = u, ux_screenshot = shot, ux_screenshots = Some d,
                ux_mode = ''screenshots''\<rparr>"
    by (simp add: UIUXExtractor_init_def given_def)
next
  show "UIUXExtractor_extract w
            \<lparr>ux_url = u, ux_screenshot = shot, ux_screenshots = Some d,
               ux_mode = ''screenshots''\<rparr> =
          Inr \<lparr>mode = ''screenshots'', screenshots = load_screenshots w d,
                accessibility = None,
                metadata = [(''source'', PStr ''provided_screenshots''),
                            (''viewports'', PList (map (PStr \<circ> fst) d))]\<rparr>"
    by (simp add: UIUXExtractor_extract_def)
qed

text \<open>
  The theorem of claim C8 at a map with a missing file, an unreadable file and a valid
  one: the result holds exactly the valid viewport.
\<close>

theorem load_screenshots_skips_failures_witness:
  "load_screenshots example_files
     [(''desktop'', ''missing.png''), (''tablet'', ''locked.png''), (''mobile'', ''mobile.png'')]
     = [(''mobile'', ''aGk='')]
   \<and> UIUXExtractor_init None None
       (Some [(''desktop'', ''missing.png''), (''tablet'', ''locked.png''),
              (''mobile'', ''mobile.png'')]) =
       Inr \<lparr>ux_url = None, ux_screenshot = None,
             ux_screenshots = Some [(''desktop'', ''missing.png''), (''tablet'', ''locked.png''),
                                    (''mobile'', ''mobile.png'')],
             ux_mode = ''screenshots''\<rparr>
   \<and> UIUXExtractor_extract example_files
       \<lparr>ux_url = None, ux_screenshot = None,
          ux_screenshots = Some [(''desktop'', ''missing.png''), (''tablet'', ''locked.png''),
                                 (''mobile'', ''mobile.png'')],
          ux_mode = ''screenshots''\<rparr> =
       Inr \<lparr>mode = ''screenshots'', screenshots = [(''mobile'', ''aGk='')],
             accessibility = None,
             metadata = [(''source'', PStr ''provided_screenshots''),
                         (''viewports'', PList [PStr ''desktop'', PStr ''tablet'', PStr ''mobile''])]\<rparr>"
  using load_screenshots_skips_failures
    [of example_files
        "[(''desktop'', ''missing.png''), (''tablet'', ''locked.png''), (''mobile'', ''mobile.png'')]"
        None None]
  by (simp add: given_def example_files_def load_screenshot_def List.map_filter_simps)

section \<open>Properties of the HTML content extraction\<close>

lemma depth_score_bounds: "0 \<le> depth_score f \<and> depth_score f \<le> 100"
proof -
  let ?t1 = "(if word_count f \<ge> 2000 then 30
      else if word_count f \<ge> 1000 then 20
      else if word_count f \<ge> 500 then 10
      else if word_count f \<ge> 300 then 5 else 0) :: int"
  let ?t2 = "(if paragraph_count f \<ge> 10 then 10 else if paragraph_count f \<ge> 5 then 5 else 0) :: int"
  let ?t3 = "(if average_paragraph_length f \<ge> 30 then 10
        else if average_paragraph_length f \<ge> 15 then 5 else 0) :: int"
  let ?t4 = "(if has_lists f then 10 else 0) :: int"
  let ?t5 = "(if has_tables f then 10 else 0) :: int"
  let ?t6 = "(if h1_count f = 1 then 5 else 0) :: int"
  let ?t7 = "(if h2_count f \<ge> 3 then 5 else 0) :: int"
  let ?t8 = "(if h3_count f \<ge> 2 then 5 else 0) :: int"
  let ?t9 = "(if total_images f \<ge> 5 then 10 else if total_images f \<ge> 2 then 5 else 0) :: int"
  let ?t10 = "(if images_with_alt f > 0
           \<and> (of_nat (images_with_alt f) :: rat) / of_nat (max (total_images f) 1) \<ge> 4 / 5
        then 5 else 0) :: int"
  have b: "0 \<le> ?t1 \<and> ?t1 \<le> 30" "0 \<le> ?t2 \<and> ?t2 \<le> 10" "0 \<le> ?t3 \<and> ?t3 \<le> 10"
    "0 \<le> ?t4 \<and> ?t4 \<le> 10" "0 \<le> ?t5 \<and> ?t5 \<le> 10" "0 \<le> ?t6 \<and> ?t6 \<le> 5"
    "0 \<le> ?t7 \<and> ?t7 \<le> 5" "0 \<le> ?t8 \<and> ?t8 \<le> 5" "0 \<le> ?t9 \<and> ?t9 \<le> 10"
    "0 \<le> ?t10 \<and> ?t10 \<le> 5"
    by simp_all
  have "depth_score f = ?t1 + ?t2 + ?t3 + ?t4 + ?t5 + ?t6 + ?t7 + ?t8 + ?t9 + ?t10"
    by (simp only: depth_score_def)
  with b show ?thesis by linarith
qed




lemma image_step_frame:
  "link_fields (image_step img f) = link_fields f"
  "total_images (image_step img f) = total_images f"
  by (simp_all add: image_step_def Let_def link_fields_def)

lemma image_fold_frame:
  "link_fields (fold image_step imgs f) = link_fields f
   \<and> total_images (fold image_step imgs f) = total_images f"
  by (induction imgs arbitrary: f) (simp_all add: image_step_frame)





lemma init_features: "features (HtmlContentExtractor_init w u h) = SEOFeatures_init"
  by (simp add: HtmlContentExtractor_init_def fetch_html_def Let_def split: option.splits)

lemma init_url: "hx_url (HtmlContentExtractor_init w u h) = u"
  by (simp add: HtmlContentExtractor_init_def fetch_html_def Let_def split: option.splits)

lemma early_steps_soup:
  "hx_soup (extract_headings self) = hx_soup self"
  "hx_soup (extract_content_metrics self) = hx_soup self"
  "hx_soup (extract_text self) = hx_soup self"
  "hx_soup (extract_image_features self) = hx_soup self"
  "hx_soup (extract_content_depth w self) = hx_soup self"
  by (simp_all add: extract_headings_def extract_content_metrics_def extract_text_def
      extract_image_features_def extract_content_depth_def Let_def split: option.splits)

lemma early_steps_url:
  "hx_url (extract_headings self) = hx_url self"
  "hx_url (extract_content_metrics self) = hx_url self"
  "hx_url (extract_text self) = hx_url self"
  "hx_url (extract_image_features self) = hx_url self"
  "hx_url (extract_content_depth w self) = hx_url self"
  by (simp_all add: extract_headings_def extract_content_metrics_def extract_text_def
      extract_image_features_def extract_content_depth_def Let_def split: option.splits)

lemma early_steps_fields:
  "link_fields (features (extract_headings self)) = link_fields (features self)"
  "link_fields (features (extract_content_metrics self)) = link_fields (features self)"
  "link_fields (features (extract_text self)) = link_fields (features self)"
  "image_fields (features (extract_headings self)) = image_fields (features self)"
  "image_fields (features (extract_content_metrics self)) = image_fields (features self)"
  "image_fields (features (extract_text self)) = image_fields (features self)"
  by (simp_all add: extract_headings_def extract_content_metrics_def extract_text_def
      link_fields_def image_fields_def split: option.splits)

lemma link_features_state:
  "hx_soup (fst (extract_link_features w self)) = hx_soup self"
  "hx_url (fst (extract_link_features w self)) = hx_url self"
  by (simp_all add: extract_link_features_def split: option.splits sum.splits prod.splits)


lemma link_features_no_url:
  "\<not> given (hx_url self) \<Longrightarrow> extract_link_features w self = (self, None)"
  by (simp add: extract_link_features_def given_def split: option.splits)

lemma link_features_sum:
  assumes "extract_link_features w self = (self', None)"
    and "\<not> given (hx_url self) \<longrightarrow>
         total_links (features self) = internal_links (features self) + external_links (features self)"
    and "hx_soup self = Some d"
  shows "total_links (features self') =
         internal_links (features self') + external_links (features self')"
  using assms
  by (auto simp: extract_link_features_def given_def split: option.splits sum.splits prod.splits
      if_splits)

lemma image_features_links:
  "link_fields (features (extract_image_features self)) = link_fields (features self)"
proof (cases "hx_soup self")
  case None
  then show ?thesis by (simp add: extract_image_features_def)
next
  case (Some d)
  have "link_fields ((features self)\<lparr>total_images := length (img_tags d)\<rparr>) =
        link_fields (features self)"
    by (simp add: link_fields_def)
  with Some show ?thesis
    by (simp add: extract_image_features_def Let_def image_fold_frame)
qed



lemma content_depth_frame:
  "link_fields (features (extract_content_depth w self)) = link_fields (features self)"
  "image_fields (features (extract_content_depth w self)) = image_fields (features self)"
  by (simp_all add: extract_content_depth_def Let_def link_fields_def image_fields_def
      split: option.splits)

lemma content_depth_score_range:
  "hx_soup self = Some d \<Longrightarrow>
   0 \<le> content_depth_score (features (extract_content_depth w self))
   \<and> content_depth_score (features (extract_content_depth w self)) \<le> 100"
proof -
  assume s: "hx_soup self = Some d"
  obtain g where "content_depth_score (features (extract_content_depth w self)) = min (depth_score g) 100"
    using s by (simp add: extract_content_depth_def Let_def)
  then show ?thesis using depth_score_bounds [of g] by simp
qed

lemma extract_state:
  "hx_soup (fst (HtmlContentExtractor_extract w self)) = hx_soup self"
  "hx_url (fst (HtmlContentExtractor_extract w self)) = hx_url self"
proof -
  let ?s3 = "extract_text (extract_content_metrics (extract_headings self))"
  have s: "hx_soup (fst (extract_link_features w ?s3)) = hx_soup self"
    and u: "hx_url (fst (extract_link_features w ?s3)) = hx_url self"
    by (simp_all add: link_features_state early_steps_soup early_steps_url)
  show "hx_soup (fst (HtmlContentExtractor_extract w self)) = hx_soup self"
    using s
    by (cases "extract_link_features w ?s3")
       (auto simp: HtmlContentExtractor_extract_def Let_def early_steps_soup
         split: option.splits)
  show "hx_url (fst (HtmlContentExtractor_extract w self)) = hx_url self"
    using u
    by (cases "extract_link_features w ?s3")
       (auto simp: HtmlContentExtractor_extract_def Let_def early_steps_url
         split: option.splits)
qed

lemma extract_FeaturesD:
  assumes "snd (HtmlContentExtractor_extract w self) = Features f"
  shows "\<exists>d s4. hx_soup self = Some d
           \<and> extract_link_features w
                (extract_text (extract_content_metrics (extract_headings self))) = (s4, None)
           \<and> fst (HtmlContentExtractor_extract w self) =
                extract_content_depth w (extract_image_features s4)
           \<and> f = features (extract_content_depth w (extract_image_features s4))"
  using assms
  by (auto simp: HtmlContentExtractor_extract_def Let_def split: option.splits prod.splits)

lemma extract_raises:
  "hx_soup self = Some d \<Longrightarrow> hx_url self = Some u \<Longrightarrow> u \<noteq> [] \<Longrightarrow> netloc w u = Inl e \<Longrightarrow>
   snd (HtmlContentExtractor_extract w self) = Raised e"
  by (simp add: HtmlContentExtractor_extract_def extract_link_features_def early_steps_soup
      early_steps_url)

lemma extract_no_url:
  assumes "hx_soup self = Some d" and "\<not> given (hx_url self)"
  shows "HtmlContentExtractor_extract w self =
     (extract_content_depth w (extract_image_features
        (extract_text (extract_content_metrics (extract_headings self)))),
      Features (features (extract_content_depth w (extract_image_features
        (extract_text (extract_content_metrics (extract_headings self)))))))"
proof -
  let ?s3 = "extract_text (extract_content_metrics (extract_headings self))"
  have "\<not> given (hx_url ?s3)" using assms(2) by (simp add: early_steps_url)
  then have "extract_link_features w ?s3 = (?s3, None)" by (rule link_features_no_url)
  then show ?thesis
    using assms(1) by (simp add: HtmlContentExtractor_extract_def Let_def)
qed

text \<open>
  Two properties of the extractor object that every call of \<^verbatim>\<open>extract\<close> keeps,
  whether it returns or raises: without a URL the link counters add up, and the
  recorded sources are at most 100 characters long.
\<close>

lemma extract_keeps_link_sum:
  assumes "\<not> given (hx_url self) \<longrightarrow> total_links (features self) =
             internal_links (features self) + external_links (features self)"
  shows "\<not> given (hx_url (fst (HtmlContentExtractor_extract w self))) \<longrightarrow>
           total_links (features (fst (HtmlContentExtractor_extract w self))) =
             internal_links (features (fst (HtmlContentExtractor_extract w self)))
             + external_links (features (fst (HtmlContentExtractor_extract w self)))"
proof (cases "hx_soup self")
  case None
  with assms show ?thesis by (simp add: HtmlContentExtractor_extract_def)
next
  case (Some d)
  show ?thesis
  proof
    assume "\<not> given (hx_url (fst (HtmlContentExtractor_extract w self)))"
    then have n: "\<not> given (hx_url self)" by (simp add: extract_state)
    let ?s3 = "extract_text (extract_content_metrics (extract_headings self))"
    let ?s6 = "extract_content_depth w (extract_image_features ?s3)"
    have "link_fields (features ?s6) = link_fields (features self)"
      by (simp add: content_depth_frame image_features_links early_steps_fields)
    with assms n show "total_links (features (fst (HtmlContentExtractor_extract w self))) =
             internal_links (features (fst (HtmlContentExtractor_extract w self)))
             + external_links (features (fst (HtmlContentExtractor_extract w self)))"
      by (simp add: extract_no_url [OF Some n] link_fields_def)
  qed
qed



lemma runs_link_sum:
  "(\<not> given (hx_url self) \<longrightarrow> total_links (features self) =
             internal_links (features self) + external_links (features self)) \<Longrightarrow>
   \<not> given (hx_url (extract_runs w n self)) \<longrightarrow>
     total_links (features (extract_runs w n self)) =
       internal_links (features (extract_runs w n self))
       + external_links (features (extract_runs w n self))"
proof (induction n arbitrary: self)
  case 0
  then show ?case by simp
next
  case (Suc n)
  from Suc.prems have "\<not> given (hx_url (fst (HtmlContentExtractor_extract w self))) \<longrightarrow>
           total_links (features (fst (HtmlContentExtractor_extract w self))) =
             internal_links (features (fst (HtmlContentExtractor_extract w self)))
             + external_links (features (fst (HtmlContentExtractor_extract w self)))"
    by (rule extract_keeps_link_sum)
  from Suc.IH [OF this] show ?case by simp
qed


lemma extract_Features_range_sum:
  assumes r: "snd (HtmlContentExtractor_extract w self) = Features f"
    and j: "\<not> given (hx_url self) \<longrightarrow> total_links (features self) =
             internal_links (features self) + external_links (features self)"
  shows "0 \<le> content_depth_score f \<and> content_depth_score f \<le> 100
         \<and> internal_links f + external_links f = total_links f"
proof -
  let ?s3 = "extract_text (extract_content_metrics (extract_headings self))"
  from extract_FeaturesD [OF r] obtain d s4 where d: "hx_soup self = Some d"
    and l: "extract_link_features w ?s3 = (s4, None)"
    and f: "f = features (extract_content_depth w (extract_image_features s4))"
    by blast
  have d3: "hx_soup ?s3 = Some d" using d by (simp add: early_steps_soup)
  have "link_fields (features ?s3) = link_fields (features self)"
    by (simp add: early_steps_fields)
  then have j3: "\<not> given (hx_url ?s3) \<longrightarrow> total_links (features ?s3) =
             internal_links (features ?s3) + external_links (features ?s3)"
    using j by (simp add: early_steps_url link_fields_def)
  have sum4: "total_links (features s4) = internal_links (features s4) + external_links (features s4)"
    using link_features_sum [OF l j3 d3] .
  have "hx_soup s4 = Some d"
    using link_features_state(1) [of w ?s3] l d3 by simp
  then have d5: "hx_soup (extract_image_features s4) = Some d" by (simp add: early_steps_soup)
  have "link_fields f = link_fields (features s4)"
    by (simp add: f content_depth_frame image_features_links)
  with sum4 have "internal_links f + external_links f = total_links f"
    by (simp add: link_fields_def)
  with content_depth_score_range [OF d5, of w] f show ?thesis by simp
qed


lemma example_init:
  "HtmlContentExtractor_init example_web u (Some ''<html>'') =
     \<lparr>hx_url = u, hx_html = Some ''<html>'', hx_soup = Some example_page,
        features = SEOFeatures_init\<rparr>"
  by (simp add: HtmlContentExtractor_init_def given_def Let_def example_web_def)

lemma example_images:
  "map has_alt_text (img_tags example_page) = [False, True, False]"
  by (simp add: example_page_def has_alt_text_def isspace_def)

lemma example_links:
  "link_loop example_web ''https://example.com/'' ''example.com'' (a_hrefs example_page) f
     = (f\<lparr>internal_links := internal_links f + 1, external_links := external_links f + 1\<rparr>, None)"
  by (simp add: example_web_def example_page_def link_step_def startswith_def)

lemma extract_with_url:
  assumes d: "hx_soup self = Some d" and u: "hx_url self = Some url" and ne: "url \<noteq> []"
    and b: "netloc w url = Inr b"
    and loop: "\<And>f. link_loop w url b (a_hrefs d) f =
       (f\<lparr>internal_links := internal_links f + i, external_links := external_links f + e\<rparr>, None)"
  shows "snd (HtmlContentExtractor_extract w self) =
           Features (features (fst (HtmlContentExtractor_extract w self)))
     \<and> link_fields (features (fst (HtmlContentExtractor_extract w self))) =
         (internal_links (features self) + i, external_links (features self) + e,
          internal_links (features self) + i + (external_links (features self) + e))"
proof -
  let ?s3 = "extract_text (extract_content_metrics (extract_headings self))"
  let ?f3 = "features ?s3"
  let ?g = "?f3\<lparr>internal_links := internal_links ?f3 + i, external_links := external_links ?f3 + e\<rparr>"
  let ?s4 = "?s3\<lparr>features := ?g\<lparr>total_links := internal_links ?g + external_links ?g\<rparr>\<rparr>"
  have l: "extract_link_features w ?s3 = (?s4, None)"
    using d u ne b loop [of ?f3]
    by (simp add: extract_link_features_def early_steps_soup early_steps_url)
  have r: "HtmlContentExtractor_extract w self =
      (extract_content_depth w (extract_image_features ?s4),
       Features (features (extract_content_depth w (extract_image_features ?s4))))"
    using d l by (simp add: HtmlContentExtractor_extract_def Let_def)
  have "link_fields ?f3 = link_fields (features self)"
    by (simp add: early_steps_fields)
  then have "link_fields (features ?s4) =
         (internal_links (features self) + i, external_links (features self) + e,
          internal_links (features self) + i + (external_links (features self) + e))"
    by (simp add: link_fields_def)
  then show ?thesis
    by (simp add: r content_depth_frame image_features_links)
qed

text \<open>
  The exception path: when a library call raises on the page address or on a link,
  \<^verbatim>\<open>extract\<close> raises too and produces no feature set. On the example, the link
  \<^verbatim>\<open>http://[bad\<close> stops the loop after the first link was counted.
\<close>

lemma extract_raises_in_loop:
  assumes d: "hx_soup self = Some d" and u: "hx_url self = Some url" and ne: "url \<noteq> []"
    and b: "netloc w url = Inr b"
    and loop: "link_loop w url b (a_hrefs d)
        (features (extract_text (extract_content_metrics (extract_headings self)))) = (g, Some e)"
  shows "snd (HtmlContentExtractor_extract w self) = Raised e"
    and "result_features (snd (HtmlContentExtractor_extract w self)) = None"
    and "features (fst (HtmlContentExtractor_extract w self)) = g"
  using d u ne b loop
  by (simp_all add: HtmlContentExtractor_extract_def extract_link_features_def early_steps_soup
      early_steps_url result_features_def)

lemma link_loop_raises_example:
  "link_loop example_web ''https://example.com/'' ''example.com''
     [''/about'', ''http://[bad'', ''/more''] f
     = (f\<lparr>internal_links := internal_links f + 1\<rparr>, Some ''Invalid IPv6 URL'')"
  by (simp add: example_web_def link_step_def startswith_def)

lemma extract_raises_example:
  "snd (HtmlContentExtractor_extract example_web
      \<lparr>hx_url = Some ''http://[bad'', hx_html = Some ''<html>'', hx_soup = Some example_page,
         features = SEOFeatures_init\<rparr>) = Raised ''Invalid IPv6 URL''"
  by (rule extract_raises [where d = example_page and u = "''http://[bad''"])
     (simp_all add: example_web_def)

text \<open>
  Claim C6. Whenever a call of \<^verbatim>\<open>extract\<close> produces a feature set, whether it is the
  first call on a constructed extractor or a later one, the \<open>content_depth_score\<close> of
  the set lies in \<open>[0, 100]\<close> and its \<open>internal_links\<close> and \<open>external_links\<close> add up to
  its \<open>total_links\<close>. (A call that returns the error dictionary or raises produces no
  feature set.)
\<close>

theorem content_depth_range_and_link_sum:
  "snd (HtmlContentExtractor_extract w (extract_runs w n (HtmlContentExtractor_init w u h)))
     = Features f
   \<longrightarrow> 0 \<le> content_depth_score f \<and> content_depth_score f \<le> 100
       \<and> internal_links f + external_links f = total_links f"
proof
  let ?s0 = "HtmlContentExtractor_init w u h"
  assume r: "snd (HtmlContentExtractor_extract w (extract_runs w n ?s0)) = Features f"
  have "\<not> given (hx_url ?s0) \<longrightarrow> total_links (features ?s0) =
             internal_links (features ?s0) + external_links (features ?s0)"
    by (simp add: init_features SEOFeatures_init_def)
  then have "\<not> given (hx_url (extract_runs w n ?s0)) \<longrightarrow>
     total_links (features (extract_runs w n ?s0)) =
       internal_links (features (extract_runs w n ?s0))
       + external_links (features (extract_runs w n ?s0))"
    by (rule runs_link_sum)
  with r show "0 \<le> content_depth_score f \<and> content_depth_score f \<le> 100
       \<and> internal_links f + external_links f = total_links f"
    by (rule extract_Features_range_sum)
qed

text \<open>
  The theorem of claim C6 at the example page, given as markup together with the URL
  \<^verbatim>\<open>https://example.com/\<close>. The first call counts one internal and one external link
  and skips the anchor link; the second call on the same object counts them again, two
  and two of four, and its feature set satisfies the claim.
\<close>

theorem content_depth_range_and_link_sum_witness:
  "map_option (\<lambda>f. (internal_links f, external_links f, total_links f))
     (result_features (snd (HtmlContentExtractor_extract example_web
        (HtmlContentExtractor_init example_web (Some ''https://example.com/'') (Some ''<html>'')))))
     = Some (1, 1, 2)
   \<and> map_option (\<lambda>f. (internal_links f, external_links f, total_links f))
     (result_features (snd (HtmlContentExtractor_extract example_web
        (extract_runs example_web (Suc 0)
          (HtmlContentExtractor_init example_web (Some ''https://example.com/'') (Some ''<html>''))))))
     = Some (2, 2, 4)
   \<and> map_option (\<lambda>f. 0 \<le> content_depth_score f \<and> content_depth_score f \<le> 100
                     \<and> internal_links f + external_links f = total_links f)
     (result_features (snd (HtmlContentExtractor_extract example_web
        (extract_runs example_web (Suc 0)
          (HtmlContentExtractor_init example_web (Some ''https://example.com/'') (Some ''<html>''))))))
     = Some True"
proof -
  let ?s0 = "HtmlContentExtractor_init example_web (Some ''https://example.com/'') (Some ''<html>'')"
  let ?s1 = "fst (HtmlContentExtractor_extract example_web ?s0)"
  let ?s2 = "fst (HtmlContentExtractor_extract example_web ?s1)"
  have n: "netloc example_web ''https://example.com/'' = Inr ''example.com''"
    by (simp add: example_web_def)
  have d0: "hx_soup ?s0 = Some example_page" and u0: "hx_url ?s0 = Some ''https://example.com/''"
    and l0: "link_fields (features ?s0) = (0, 0, 0)"
    by (simp_all add: example_init link_fields_def SEOFeatures_init_def)
  have ne: "''https://example.com/'' \<noteq> []" by simp
  from l0 have z: "internal_links (features ?s0) = 0" "external_links (features ?s0) = 0"
    by (simp_all add: link_fields_def)
  have r1: "snd (HtmlContentExtractor_extract example_web ?s0) = Features (features ?s1)"
    and l1: "link_fields (features ?s1) = (1, 1, 2)"
    using extract_with_url [OF d0 u0 ne n example_links] z by simp_all
  have d1: "hx_soup ?s1 = Some example_page" and u1: "hx_url ?s1 = Some ''https://example.com/''"
    using d0 u0 by (simp_all add: extract_state)
  from l1 have o: "internal_links (features ?s1) = 1" "external_links (features ?s1) = 1"
    by (simp_all add: link_fields_def)
  have r2: "snd (HtmlContentExtractor_extract example_web ?s1) = Features (features ?s2)"
    and l2: "link_fields (features ?s2) = (2, 2, 4)"
    using extract_with_url [OF d1 u1 ne n example_links] o by simp_all
  have "snd (HtmlContentExtractor_extract example_web (extract_runs example_web (Suc 0) ?s0))
      = Features (features ?s2)"
    using r2 by simp
  from content_depth_range_and_link_sum [of example_web "Suc 0" "Some ''https://example.com/''"
      "Some ''<html>''" "features ?s2"] this
  have inv: "0 \<le> content_depth_score (features ?s2) \<and> content_depth_score (features ?s2) \<le> 100
       \<and> internal_links (features ?s2) + external_links (features ?s2) = total_links (features ?s2)"
    by blast
  from l1 l2 have "(internal_links (features ?s1), external_links (features ?s1),
      total_links (features ?s1)) = (1, 1, 2)"
    "(internal_links (features ?s2), external_links (features ?s2),
      total_links (features ?s2)) = (2, 2, 4)"
    by (simp_all add: link_fields_def)
  with inv r1 r2 show ?thesis
    by (simp add: result_features_def)
qed




end
